theory Spec2Isabelle
  imports Main "HOL-Library.Sublist"
begin

section \<open>The litter assessment service: prediction orchestration (api.py)\<close>

text \<open>
  The module api.py is orchestration glue: it makes calls to collaborators that live
  outside the repository (the model loader, the two classifiers, the dataframe and
  plotting helpers, the file system, the rclone command) and decides which calls to make
  and what to hand back to the caller. The embedding keeps exactly that:
  \<^item> every call to a collaborator is a value of the datatype \<open>call\<close>; a run of the
    program produces the list of the calls it made, in order (its trace);
  \<^item> what a collaborator computes from its arguments is a term that records where it
    came from (\<open>PLD_result image names model\<close>), so the data flow of the source can be
    read off the trace;
  \<^item> what depends on the environment (whether a call raises, the directory that
    mkdtemp creates, the listing of a directory, the loaded model object, the paths the
    face anonymizer hands back) is asked of a \<open>world\<close>, which sees the calls made so far;
  \<^item> an exception is a value of \<open>exn\<close>, and a run that raises stops there.
\<close>

subsection \<open>Path and string helpers of the Python library\<close>

text \<open>\<open>posixpath.join(a, b)\<close> for two arguments.\<close>

definition os_path_join :: "string \<Rightarrow> string \<Rightarrow> string" where
  "os_path_join a b =
     (if b \<noteq> [] \<and> hd b = CHR ''/'' then b
      else if a = [] \<or> last a = CHR ''/'' then a @ b
      else a @ ''/'' @ b)"

text \<open>\<open>posixpath.basename(p)\<close>: what follows the last slash.\<close>

definition os_path_basename :: "string \<Rightarrow> string" where
  "os_path_basename p = rev (takeWhile (\<lambda>c. c \<noteq> CHR ''/'') (rev p))"

text \<open>The slice \<open>name[:-4]\<close>: all but the last four characters, empty for a short name.\<close>

definition drop_last4 :: "string \<Rightarrow> string" where
  "drop_last4 name = take (length name - 4) name"

subsection \<open>Data\<close>

text \<open>The uploaded payload (\<open>kwargs["files"]\<close>) and the keyword arguments of predict.\<close>

record upload =
  content_type :: string
  filename :: string
  original_filename :: string

record kwargs =
  files :: upload
  face_detection :: bool
  PLD_plot :: bool
  PLQ_plot :: bool
  output_type :: string

text \<open>A loaded model is an object handed out by the loader; the number is its identity.\<close>

datatype model = Model nat

text \<open>
  The image array of one loop iteration, \<open>np.array(Image.open(file))\<close>, decoded from
  the file at that path. (For an application/octet-stream payload the source calls
  \<open>get_arr_from_bin(file)\<close> instead, which yields no array: see there.)
\<close>

datatype image = Arr_from_path string

text \<open>
  The results of the two classifiers, with the arguments they were computed from;
  \<open>c_matrix r\<close> is the attribute \<open>r.c_matrix\<close>.
\<close>

datatype result =
    PLD_result image "string list" model
  | PLQ_result cmatrix image "string list" model
and cmatrix = c_matrix result

text \<open>\<open>dataframe.PLD_df(r, t).get_dataframe()\<close>, \<open>dataframe.PLQ_df(r, t).get_dataframe()\<close>
  and \<open>ResultPlot(r, t).get_plot()\<close>.\<close>

datatype df = PLD_df result string | PLQ_df result string

datatype fig = ResultPlot result string

text \<open>The calls to collaborators. A call that returns something from the environment
  carries what it returned as its last argument.\<close>

datatype call =
    Preprocessing_warm string model
  | Mkdtemp string
  | Extractall string string
  | Listdir string "string list"
  | Anonymize_images "string list" "string list" "string list"
  | Decode image
  | Classify result
  | Get_dataframe df
  | Get_plot fig
  | Savefig fig string
  | Excel_write string "(string \<times> df) list"
  | Make_archive string string string
  | Open_rb string
  | Popen "string list"
  | Print string

text \<open>Exceptions: a collaborator raised, a global name was read before assignment, or
  a value of the wrong type was handed to a library function.\<close>

datatype exn = Call_failed call | NameError string | TypeError string

datatype 'a outcome = Returned 'a | Raised exn

text \<open>The handle that \<open>open(path, 'rb')\<close> returns.\<close>

datatype handle = Handle_rb string

record world =
  fails :: "call list \<Rightarrow> call \<Rightarrow> bool"
  warm_result :: "call list \<Rightarrow> string \<Rightarrow> model"
  mkdtemp_result :: "call list \<Rightarrow> string"
  listdir_result :: "call list \<Rightarrow> string \<Rightarrow> string list"
  anonymize_result :: "call list \<Rightarrow> string list \<Rightarrow> string list \<Rightarrow> string list"

text \<open>The module's global variables \<open>model_PLD\<close> and \<open>model_PLQ\<close>; \<open>None\<close> is a
  name that has not been assigned yet.\<close>

record globals =
  model_PLD :: "model option"
  model_PLQ :: "model option"

subsection \<open>Running a sequence of statements\<close>

text \<open>
  A straight-line piece of the source is the list of the calls it makes, with a
  \<open>Raise\<close> where the source would raise by itself. \<open>run\<close> makes the calls in order,
  appends each to the trace, and stops at the first one that raises.
\<close>

datatype stmt = Call call | Raise exn

fun run :: "world \<Rightarrow> call list \<Rightarrow> stmt list \<Rightarrow> call list \<times> exn option" where
  "run w h [] = (h, None)"
| "run w h (Call c # ss) =
     (if fails w h c then (h @ [c], Some (Call_failed c)) else run w (h @ [c]) ss)"
| "run w h (Raise e # ss) = (h, Some e)"

fun calls_of :: "stmt list \<Rightarrow> call list" where
  "calls_of [] = []"
| "calls_of (Call c # ss) = c # calls_of ss"
| "calls_of (Raise e # ss) = calls_of ss"

fun raises :: "stmt list \<Rightarrow> bool" where
  "raises [] = False"
| "raises (Call c # ss) = raises ss"
| "raises (Raise e # ss) = True"

subsection \<open>get_input_data (lines 95-110)\<close>

definition get_input_data ::
  "world \<Rightarrow> call list \<Rightarrow> upload \<Rightarrow> call list \<times> (string list \<times> string list) outcome" where
  "get_input_data w h data =
     (if content_type data = ''application/zip'' then
        (let tmp_input = mkdtemp_result w h in
         case run w h [Call (Mkdtemp tmp_input), Call (Extractall (filename data) tmp_input)] of
           (h1, Some e) \<Rightarrow> (h1, Raised e)
         | (h1, None) \<Rightarrow>
             (let image_names = listdir_result w h1 tmp_input in
              case run w h1 [Call (Listdir tmp_input image_names)] of
                (h2, Some e) \<Rightarrow> (h2, Raised e)
              | (h2, None) \<Rightarrow>
                  (let image_file = map (\<lambda>i. os_path_join tmp_input (image_names ! i))
                                        [0 ..< length image_names]
                   in (h2, Returned (image_names, image_file)))))
      else
        (let image_file = [filename data];
             image_names = [original_filename data]
         in (h, Returned (image_names, image_file))))"

subsection \<open>Loading the models (lines 131-134 of warm, repeated as lines 170-173 of predict)\<close>

text \<open>
  Both functions run the same four statements: each model is loaded with
  \<open>preprocessing.warm\<close> and assigned to its global. When the first load raises,
  neither global is assigned; when the second raises, only \<open>model_PLD\<close> is.
\<close>

definition load_models :: "world \<Rightarrow> globals \<Rightarrow> call list \<Rightarrow> globals \<times> call list \<times> exn option" where
  "load_models w g h =
     (let model_name_PLD = ''litter-assessment/models/PLD_CNN.h5'';
          model_name_PLQ = ''litter-assessment/models/PLQ_CNN.h5'';
          m1 = warm_result w h model_name_PLD
      in case run w h [Call (Preprocessing_warm model_name_PLD m1)] of
           (h1, Some e) \<Rightarrow> (g, h1, Some e)
         | (h1, None) \<Rightarrow>
             (let g1 = g\<lparr>model_PLD := Some m1\<rparr>;
                  m2 = warm_result w h1 model_name_PLQ
              in case run w h1 [Call (Preprocessing_warm model_name_PLQ m2)] of
                   (h2, Some e) \<Rightarrow> (g1, h2, Some e)
                 | (h2, None) \<Rightarrow> (g1\<lparr>model_PLQ := Some m2\<rparr>, h2, None)))"

definition warm :: "world \<Rightarrow> globals \<Rightarrow> call list \<Rightarrow> globals \<times> call list \<times> unit outcome" where
  "warm w g h =
     (case load_models w g h of
        (g', h', Some e) \<Rightarrow> (g', h', Raised e)
      | (g', h', None) \<Rightarrow> (g', h', Returned ()))"

subsection \<open>Plot helpers (lines 113-160)\<close>

text \<open>
  \<open>get_arr_from_bin(image_file)\<close> runs \<open>Image.open(io.BytesIO(image_file))\<close>. Its two
  lines that opened and read the file are commented out, and predict hands it an element
  of \<open>image_files\<close>, a path (a \<open>str\<close>): \<open>io.BytesIO\<close> of a \<open>str\<close> raises TypeError, so
  the function raises before anything is decoded.
\<close>

definition get_arr_from_bin :: "string \<Rightarrow> exn + image" where
  "get_arr_from_bin image_file = Inl (TypeError ''a bytes-like object is required, not str'')"

text \<open>\<open>mount_nextcloud\<close> starts \<open>rclone copy frompath topath\<close> and waits for it; its
  result is not used by any caller.\<close>

definition mount_nextcloud :: "string \<Rightarrow> string \<Rightarrow> stmt list" where
  "mount_nextcloud frompath topath = [Call (Popen [''rclone'', ''copy'', frompath, topath])]"

definition plot_file :: "string \<Rightarrow> string \<Rightarrow> string" where
  "plot_file output_path type = output_path @ ''_'' @ type @ ''.jpg''"

definition return_plot :: "result \<Rightarrow> string \<Rightarrow> string \<Rightarrow> stmt list" where
  "return_plot results type output_path =
     (let fig = ResultPlot results type
      in [Call (Get_plot fig), Call (Savefig fig (plot_file output_path type))])"

definition save_plot_nextcloud :: "result \<Rightarrow> string \<Rightarrow> string \<Rightarrow> string \<Rightarrow> stmt list" where
  "save_plot_nextcloud results type output_path to_path =
     (let fig = ResultPlot results type
      in [Call (Get_plot fig), Call (Savefig fig (plot_file output_path type))]
         @ mount_nextcloud (plot_file output_path type) to_path)"

subsection \<open>predict (lines 164-246)\<close>

definition to_path :: string where
  "to_path = ''rshare:iMagine_UC1/results''"

text \<open>
  One iteration of the loop of lines 184-246, for the pair \<open>(name, file)\<close>: the
  statements it runs and, when it ends in \<open>return open(path, 'rb')\<close>, that path. The
  globals \<open>model_PLD\<close> and \<open>model_PLQ\<close> are read where the source reads them, as the
  last argument of the classifier call. For an application/octet-stream payload the
  iteration ends at line 189, in the exception of \<open>get_arr_from_bin\<close>.
\<close>

definition iteration ::
  "kwargs \<Rightarrow> globals \<Rightarrow> string \<Rightarrow> string list \<Rightarrow> string \<times> string \<Rightarrow> stmt list \<times> string option" where
  "iteration kw g tmp_dir image_names nf =
     (let name = os_path_basename (fst nf);
          file = snd nf;
          output_path = os_path_join tmp_dir (drop_last4 name);
          excel_path = output_path @ ''_litter_items.xlsx''
      in case (if content_type (files kw) = ''application/octet-stream''
               then get_arr_from_bin file else Inr (Arr_from_path file)) of
           Inl e \<Rightarrow> ([Raise e], None)
         | Inr array \<Rightarrow>
      (case model_PLD g of
           None \<Rightarrow> ([Call (Decode array), Raise (NameError ''model_PLD'')], None)
         | Some mPLD \<Rightarrow>
      (let results_PLD = PLD_result array image_names mPLD;
           df_PLD = PLD_df results_PLD ''PLD'';
           detect = [Call (Decode array), Call (Classify results_PLD), Call (Get_dataframe df_PLD)]
       in
       if PLD_plot kw \<and> PLQ_plot kw then
         (case model_PLQ g of
            None \<Rightarrow> (detect @ return_plot results_PLD ''PLD'' output_path
                        @ [Raise (NameError ''model_PLQ'')], None)
          | Some mPLQ \<Rightarrow>
         (let results_PLQ = PLQ_result (c_matrix results_PLD) array image_names mPLQ;
              df_PLQ = PLQ_df results_PLQ ''PLQ'';
              both = detect
                @ return_plot results_PLD ''PLD'' output_path
                @ [Call (Classify results_PLQ), Call (Get_dataframe df_PLQ)]
                @ return_plot results_PLQ ''PLQ'' output_path
                @ [Call (Excel_write excel_path
                     [(''Litter Detection'', df_PLD), (''Litter Quantification'', df_PLQ)])]
          in
          if output_type kw = ''Download'' then
            (let zip_path = tmp_dir @ ''.zip''
             in (both @ [Call (Make_archive tmp_dir ''zip'' tmp_dir), Call (Open_rb zip_path)],
                 Some zip_path))
          else if output_type kw = ''nextcloud'' then
            (both @ save_plot_nextcloud results_PLD ''PLD'' output_path to_path
                  @ save_plot_nextcloud results_PLQ ''PLQ'' output_path to_path, None)
          else (both @ [Call (Print ''no output type selected'')], None)))
       else if PLD_plot kw then
         (let plotted = detect @ return_plot results_PLD ''PLD'' output_path;
              plot_path = output_path @ ''_PLD.jpg''
          in
          if output_type kw = ''Download'' then
            (plotted @ [Call (Open_rb plot_path)], Some plot_path)
          else if output_type kw = ''nextcloud'' then
            (plotted @ save_plot_nextcloud results_PLD ''PLD'' output_path to_path, None)
          else (plotted @ [Call (Print ''no output type selected'')], None))
       else if PLQ_plot kw then
         (case model_PLQ g of
            None \<Rightarrow> (detect @ [Raise (NameError ''model_PLQ'')], None)
          | Some mPLQ \<Rightarrow>
         (let results_PLQ = PLQ_result (c_matrix results_PLD) array image_names mPLQ;
              plotted = detect @ [Call (Classify results_PLQ)]
                @ return_plot results_PLQ ''PLQ'' output_path;
              plot_path = output_path @ ''_PLQ.jpg''
          in
          if output_type kw = ''Download'' then
            (plotted @ [Call (Open_rb plot_path)], Some plot_path)
          else if output_type kw = ''nextcloud'' then
            (plotted @ save_plot_nextcloud results_PLQ ''PLQ'' output_path to_path, None)
          else (plotted @ [Call (Print ''no output type selected'')], None)))
       else (detect, None))))"

text \<open>The loop over \<open>zip(image_names, image_files)\<close>: an iteration that raises ends the
  run, one that returns ends the loop with the handle, any other goes on to the next
  pair; when the pairs are used up predict falls off its end and returns \<open>None\<close>.\<close>

fun predict_loop ::
  "world \<Rightarrow> kwargs \<Rightarrow> globals \<Rightarrow> string \<Rightarrow> string list \<Rightarrow> call list \<Rightarrow> (string \<times> string) list
     \<Rightarrow> call list \<times> handle option outcome" where
  "predict_loop w kw g tmp_dir image_names h [] = (h, Returned None)"
| "predict_loop w kw g tmp_dir image_names h (nf # rest) =
     (case iteration kw g tmp_dir image_names nf of
        (body, ret) \<Rightarrow>
          (case run w h body of
             (h', Some e) \<Rightarrow> (h', Raised e)
           | (h', None) \<Rightarrow>
               (case ret of
                  Some path \<Rightarrow> (h', Returned (Some (Handle_rb path)))
                | None \<Rightarrow> predict_loop w kw g tmp_dir image_names h' rest)))"

text \<open>\<open>face_detection.anonymize_images(image_files, image_names)\<close>: the paths it
  returns are the world's.\<close>

definition anonymize_images ::
  "world \<Rightarrow> call list \<Rightarrow> string list \<Rightarrow> string list \<Rightarrow> call list \<times> string list outcome" where
  "anonymize_images w h image_files image_names =
     (let anonymized = anonymize_result w h image_files image_names
      in case run w h [Call (Anonymize_images image_files image_names anonymized)] of
           (h1, Some e) \<Rightarrow> (h1, Raised e)
         | (h1, None) \<Rightarrow> (h1, Returned anonymized))"

text \<open>Lines 169-181: what predict does before the loop. It yields the names, the
  (possibly anonymized) files and the scratch directory \<open>tmp_dir\<close>.\<close>

definition predict_setup ::
  "world \<Rightarrow> globals \<Rightarrow> kwargs \<Rightarrow> call list
     \<Rightarrow> globals \<times> call list \<times> (string list \<times> string list \<times> string) outcome" where
  "predict_setup w g kw h =
     (case load_models w g h of
        (g1, h1, Some e) \<Rightarrow> (g1, h1, Raised e)
      | (g1, h1, None) \<Rightarrow>
          (let data = files kw
           in case get_input_data w h1 data of
                (h2, Raised e) \<Rightarrow> (g1, h2, Raised e)
              | (h2, Returned (image_names, image_files)) \<Rightarrow>
                  (case (if face_detection kw
                         then anonymize_images w h2 image_files image_names
                         else (h2, Returned image_files)) of
                     (h3, Raised e) \<Rightarrow> (g1, h3, Raised e)
                   | (h3, Returned image_files') \<Rightarrow>
                       (let tmp_dir = mkdtemp_result w h3
                        in case run w h3 [Call (Mkdtemp tmp_dir)] of
                             (h4, Some e) \<Rightarrow> (g1, h4, Raised e)
                           | (h4, None) \<Rightarrow>
                               (g1, h4, Returned (image_names, image_files', tmp_dir))))))"

definition predict ::
  "world \<Rightarrow> globals \<Rightarrow> kwargs \<Rightarrow> call list \<Rightarrow> globals \<times> call list \<times> handle option outcome" where
  "predict w g kw h =
     (case predict_setup w g kw h of
        (g1, h1, Raised e) \<Rightarrow> (g1, h1, Raised e)
      | (g1, h1, Returned (image_names, image_files, tmp_dir)) \<Rightarrow>
          (case predict_loop w kw g1 tmp_dir image_names h1 (zip image_names image_files) of
             (h2, r) \<Rightarrow> (g1, h2, r)))"

subsection \<open>Concrete inputs\<close>

text \<open>A world in which no call raises: each loaded model and each temporary directory
  is new (numbered by the calls made so far), an extracted archive lists two images, and
  the anonymizer hands back one path per image.\<close>

definition quiet :: world where
  "quiet = \<lparr> fails = (\<lambda>h c. False),
             warm_result = (\<lambda>h n. Model (length h)),
             mkdtemp_result = (\<lambda>h. ''/tmp/t'' @ replicate (length h) CHR ''x''),
             listdir_result = (\<lambda>h d. [''a.jpg'', ''b.png'']),
             anonymize_result = (\<lambda>h fs ns. map (\<lambda>f. f @ ''.anon'') fs) \<rparr>"

definition no_globals :: globals where
  "no_globals = \<lparr> model_PLD = None, model_PLQ = None \<rparr>"

definition zip_upload :: upload where
  "zip_upload = \<lparr> content_type = ''application/zip'', filename = ''/tmp/up1'',
                  original_filename = ''batch.zip'' \<rparr>"

definition octet_upload :: upload where
  "octet_upload = \<lparr> content_type = ''application/octet-stream'', filename = ''/tmp/up4'',
                    original_filename = ''dune.jpg'' \<rparr>"

definition jpg_upload :: upload where
  "jpg_upload = \<lparr> content_type = ''image/jpeg'', filename = ''/tmp/up2'',
                  original_filename = ''beach.jpg'' \<rparr>"

definition request :: "upload \<Rightarrow> bool \<Rightarrow> bool \<Rightarrow> string \<Rightarrow> kwargs" where
  "request data pld plq out =
     \<lparr> files = data, face_detection = False, PLD_plot = pld, PLQ_plot = plq,
       output_type = out \<rparr>"

subsection \<open>Names for expressions of the loop body\<close>

text \<open>Line 186: \<open>output_path = os.path.join(tmp_dir, name[:-4])\<close> with
  \<open>name = os.path.basename(name)\<close>; lines 191-192: the image array of the pair, when
  the payload is not application/octet-stream.\<close>

definition output_path_of :: "string \<Rightarrow> string \<times> string \<Rightarrow> string" where
  "output_path_of tmp_dir nf = os_path_join tmp_dir (drop_last4 (os_path_basename (fst nf)))"

definition image_of :: "string \<times> string \<Rightarrow> image" where
  "image_of nf = Arr_from_path (snd nf)"

text \<open>The pairs whose iteration is entered when no call raises: a download request
  with a plot flag leaves the loop in its first iteration.\<close>

definition processed :: "kwargs \<Rightarrow> 'a list \<Rightarrow> 'a list" where
  "processed kw ps =
     (if output_type kw = ''Download'' \<and> (PLD_plot kw \<or> PLQ_plot kw) then take 1 ps else ps)"

fun setup_call :: "call \<Rightarrow> bool" where
  "setup_call (Preprocessing_warm n m) = True"
| "setup_call (Mkdtemp d) = True"
| "setup_call (Extractall a d) = True"
| "setup_call (Listdir d ns) = True"
| "setup_call (Anonymize_images fs ns rs) = True"
| "setup_call c = False"

fun staged :: "result option \<Rightarrow> call list \<Rightarrow> bool" where
  "staged cur [] = True"
| "staged cur (c # cs) =
     (case c of
        Decode img \<Rightarrow> staged None cs
      | Classify r \<Rightarrow>
          (case r of
             PLD_result img ns m \<Rightarrow> staged (Some r) cs
           | PLQ_result cm img ns m \<Rightarrow>
               (case cur of
                  Some (PLD_result img' ns' m') \<Rightarrow>
                    img' = img \<and> ns' = ns \<and> cm = c_matrix (PLD_result img' ns' m')
                    \<and> staged cur cs
                | _ \<Rightarrow> False))
      | _ \<Rightarrow> staged cur cs)"

fun output_call :: "call \<Rightarrow> bool" where
  "output_call (Savefig f p) = True"
| "output_call (Excel_write p sh) = True"
| "output_call (Make_archive b f r) = True"
| "output_call (Open_rb p) = True"
| "output_call (Popen cmd) = True"
| "output_call c = False"

fun delivery_call :: "call \<Rightarrow> bool" where
  "delivery_call (Make_archive b f r) = True"
| "delivery_call (Open_rb p) = True"
| "delivery_call (Popen cmd) = True"
| "delivery_call c = False"

fun is_print :: "call \<Rightarrow> bool" where
  "is_print (Print s) = True"
| "is_print c = False"

fun is_workbook :: "call \<Rightarrow> bool" where
  "is_workbook (Excel_write p sh) = True"
| "is_workbook c = False"

definition workbook_of ::
  "model \<Rightarrow> model \<Rightarrow> string \<Rightarrow> string list \<Rightarrow> string \<times> string \<Rightarrow> call" where
  "workbook_of mPLD mPLQ tmp_dir image_names nf =
     (let image = image_of nf;
          results_PLD = PLD_result image image_names mPLD;
          results_PLQ = PLQ_result (c_matrix results_PLD) image image_names mPLQ
      in Excel_write (output_path_of tmp_dir nf @ ''_litter_items.xlsx'')
           [(''Litter Detection'', PLD_df results_PLD ''PLD''),
            (''Litter Quantification'', PLQ_df results_PLQ ''PLQ'')])"

fun uses_models :: "model \<Rightarrow> model \<Rightarrow> call \<Rightarrow> bool" where
  "uses_models m1 m2 (Classify (PLD_result img ns m)) = (m = m1)"
| "uses_models m1 m2 (Classify (PLQ_result cm img ns m)) = (m = m2)"
| "uses_models m1 m2 (Preprocessing_warm n m) = False"
| "uses_models m1 m2 c = True"

fun is_call_failed :: "exn \<Rightarrow> bool" where
  "is_call_failed (Call_failed c) = True"
| "is_call_failed e = False"

fun is_name_error :: "exn \<Rightarrow> bool" where
  "is_name_error (NameError n) = True"
| "is_name_error e = False"

fun name_errors :: "stmt list \<Rightarrow> bool" where
  "name_errors [] = False"
| "name_errors (Call c # ss) = name_errors ss"
| "name_errors (Raise e # ss) = (is_name_error e \<or> name_errors ss)"

fun after_load :: "call \<Rightarrow> bool" where
  "after_load (Mkdtemp d) = True"
| "after_load (Extractall a d) = True"
| "after_load (Listdir d ns) = True"
| "after_load (Anonymize_images fs ns rs) = True"
| "after_load c = False"

datatype content = Jpg fig | Xlsx "(string \<times> df) list" | Zip "string list"

definition relative_to :: "string \<Rightarrow> string \<Rightarrow> string option" where
  "relative_to root p =
     (let d = os_path_join root [] in
      if prefix d p \<and> length d < length p then Some (drop (length d) p) else None)"

definition store :: "string \<Rightarrow> content \<Rightarrow> (string \<times> content) list \<Rightarrow> (string \<times> content) list" where
  "store p c fs = (if p \<in> set (map fst fs)
                   then map (\<lambda>(q, d). if q = p then (q, c) else (q, d)) fs
                   else fs @ [(p, c)])"

definition members :: "string \<Rightarrow> (string \<times> content) list \<Rightarrow> string list" where
  "members root fs = List.map_filter (\<lambda>(p, c). relative_to root p) fs"

fun files_after :: "(string \<times> content) list \<Rightarrow> call list \<Rightarrow> (string \<times> content) list" where
  "files_after fs [] = fs"
| "files_after fs (Savefig f p # cs) = files_after (store p (Jpg f) fs) cs"
| "files_after fs (Excel_write p sh # cs) = files_after (store p (Xlsx sh) fs) cs"
| "files_after fs (Make_archive base fmt root # cs) =
     files_after (store (base @ ''.'' @ fmt) (Zip (members root fs)) fs) cs"
| "files_after fs (c # cs) = files_after fs cs"

text \<open>
  The name the specification gives a plot: the basename of the original filename without
  its extension, then \<open>_<type>.jpg\<close>, in the scratch directory. The extension is what
  \<open>os.path.splitext\<close> splits off: the part from the last dot of the basename, unless
  only dots come before it.
\<close>

definition spec_basename_without_extension :: "string \<Rightarrow> string" where
  "spec_basename_without_extension F =
     (let name = os_path_basename F;
          ext = takeWhile (\<lambda>c. c \<noteq> CHR ''.'') (rev name);
          rest = drop (length ext) (rev name)
      in if rest = [] then name
         else if list_all (\<lambda>c. c = CHR ''.'') (tl rest) then name
         else rev (tl rest))"

definition spec_plot_name :: "string \<Rightarrow> string \<Rightarrow> string \<Rightarrow> string" where
  "spec_plot_name tmp_dir F type =
     os_path_join tmp_dir (spec_basename_without_extension F) @ ''_'' @ type @ ''.jpg''"

definition jpeg_upload :: upload where
  "jpeg_upload = \<lparr> content_type = ''image/jpeg'', filename = ''/tmp/up3'',
                   original_filename = ''photo.jpeg'' \<rparr>"

section \<open>Facts about the model\<close>

subsection \<open>Running statements\<close>

lemma run_no_fail:
  "\<forall>h c. \<not> fails w h c \<Longrightarrow> \<not> raises ss \<Longrightarrow> run w h ss = (h @ calls_of ss, None)"
  by (induction w h ss rule: run.induct) auto

lemma run_trace:
  "run w h ss = (h', r) \<Longrightarrow> \<exists>t. h' = h @ t \<and> prefix t (calls_of ss)"
proof (induction w h ss arbitrary: h' r rule: run.induct)
  case (1 w h)
  then show ?case by simp
next
  case (2 w h c ss)
  show ?case
  proof (cases "fails w h c")
    case True
    with 2 show ?thesis by auto
  next
    case False
    with 2 obtain t where "h' = (h @ [c]) @ t" "prefix t (calls_of ss)" by fastforce
    then show ?thesis by auto
  qed
next
  case (3 w h e ss)
  then show ?case by simp
qed

lemma run_raises: "raises ss \<Longrightarrow> \<exists>h' e. run w h ss = (h', Some e)"
  by (induction w h ss rule: run.induct) auto

lemma run_append:
  "run w h (ss @ ts) = (case run w h ss of (h', None) \<Rightarrow> run w h' ts | (h', Some e) \<Rightarrow> (h', Some e))"
  by (induction w h ss rule: run.induct) auto

subsection \<open>One iteration and the loop\<close>

lemma iteration_octet:
  "content_type (files kw) = ''application/octet-stream'' \<Longrightarrow>
     iteration kw g t ns nf =
       ([Raise (TypeError ''a bytes-like object is required, not str'')], None)"
  by (simp add: iteration_def Let_def get_arr_from_bin_def)

lemma iteration_no_raise:
  "model_PLD g = Some m1 \<Longrightarrow> model_PLQ g = Some m2 \<Longrightarrow> content_type (files kw) \<noteq> ''application/octet-stream'' \<Longrightarrow>
     \<not> raises (fst (iteration kw g t ns nf))"
  by (simp add: iteration_def Let_def return_plot_def save_plot_nextcloud_def mount_nextcloud_def)

lemma iteration_ret:
  "model_PLD g = Some m1 \<Longrightarrow> model_PLQ g = Some m2 \<Longrightarrow> content_type (files kw) \<noteq> ''application/octet-stream'' \<Longrightarrow>
   snd (iteration kw g t ns nf) =
     (if output_type kw = ''Download'' then
        (if PLD_plot kw \<and> PLQ_plot kw then Some (t @ ''.zip'')
         else if PLD_plot kw then Some (output_path_of t nf @ ''_PLD.jpg'')
         else if PLQ_plot kw then Some (output_path_of t nf @ ''_PLQ.jpg'')
         else None)
      else None)"
  by (simp add: iteration_def Let_def output_path_of_def)

lemma iteration_ret_or_raise:
  "output_type kw = ''Download'' \<Longrightarrow> PLD_plot kw \<or> PLQ_plot kw \<Longrightarrow>
   snd (iteration kw g t ns nf) = None \<Longrightarrow> raises (fst (iteration kw g t ns nf))"
  apply (cases "content_type (files kw) = ''application/octet-stream''")
   apply (simp add: iteration_octet)
  apply (auto simp add: iteration_def Let_def return_plot_def
        split: option.splits if_splits)
  done

lemma loop_first_only:
  assumes "output_type kw = ''Download''" "PLD_plot kw \<or> PLQ_plot kw"
  shows "predict_loop w kw g t ns h (nf # rest) = predict_loop w kw g t ns h [nf]"
proof (cases "iteration kw g t ns nf")
  case (Pair body ret)
  show ?thesis
  proof (cases "run w h body")
    case run: (Pair h' r)
    show ?thesis
    proof (cases r)
      case (Some e)
      with Pair run show ?thesis by simp
    next
      case None
      have "ret \<noteq> None"
      proof
        assume "ret = None"
        with Pair assms have "raises body"
          using iteration_ret_or_raise[of kw g t ns nf] by simp
        then show False using run_raises[of body w h] run None by simp
      qed
      with Pair run None show ?thesis by auto
    qed
  qed
qed

lemma loop_no_fail:
  assumes nofail: "\<forall>h c. \<not> fails w h c"
      and g: "model_PLD g = Some m1" "model_PLQ g = Some m2"
      and nonoct: "content_type (files kw) \<noteq> ''application/octet-stream''"
  shows "predict_loop w kw g t ns h ps =
           (h @ concat (map (\<lambda>nf. calls_of (fst (iteration kw g t ns nf))) (processed kw ps)),
            Returned (if output_type kw = ''Download'' \<and> (PLD_plot kw \<or> PLQ_plot kw) \<and> ps \<noteq> []
                      then map_option Handle_rb (snd (iteration kw g t ns (hd ps)))
                      else None))"
proof (induction ps arbitrary: h)
  case Nil
  then show ?case by (simp add: processed_def)
next
  case (Cons nf rest)
  obtain body ret where it: "iteration kw g t ns nf = (body, ret)" by (cases "iteration kw g t ns nf")
  have nr: "\<not> raises body" using iteration_no_raise[OF g nonoct, of t ns nf] it by simp
  have run: "run w h body = (h @ calls_of body, None)" using run_no_fail[OF nofail nr] .
  have ret: "ret = (if output_type kw = ''Download'' \<and> (PLD_plot kw \<or> PLQ_plot kw) then ret else None)"
    using iteration_ret[OF g nonoct, of t ns nf] it by auto
  show ?case
  proof (cases "output_type kw = ''Download'' \<and> (PLD_plot kw \<or> PLQ_plot kw)")
    case True
    then have "ret \<noteq> None" using iteration_ret[OF g nonoct, of t ns nf] it by auto
    then obtain p where "ret = Some p" by auto
    with True it run show ?thesis by (simp add: processed_def)
  next
    case False
    then have "ret = None" using ret by metis
    with False it run Cons.IH[of "h @ calls_of body"] show ?thesis
      by (auto simp add: processed_def)
  qed
qed

lemma load_models_ok:
  "load_models w g h = (g1, h1, None) \<Longrightarrow>
     (let c1 = Preprocessing_warm ''litter-assessment/models/PLD_CNN.h5''
                 (warm_result w h ''litter-assessment/models/PLD_CNN.h5'');
          c2 = Preprocessing_warm ''litter-assessment/models/PLQ_CNN.h5''
                 (warm_result w (h @ [c1]) ''litter-assessment/models/PLQ_CNN.h5'')
      in h1 = h @ [c1, c2] \<and>
         model_PLD g1 = Some (warm_result w h ''litter-assessment/models/PLD_CNN.h5'') \<and>
         model_PLQ g1 = Some (warm_result w (h @ [c1]) ''litter-assessment/models/PLQ_CNN.h5''))"
  by (auto simp add: load_models_def Let_def split: if_splits)

lemma predict_setup_models:
  "predict_setup w g kw h = (g1, h1, Returned x) \<Longrightarrow>
     \<exists>m1 m2. model_PLD g1 = Some m1 \<and> model_PLQ g1 = Some m2"
proof -
  assume a: "predict_setup w g kw h = (g1, h1, Returned x)"
  obtain ga ha ra where lm: "load_models w g h = (ga, ha, ra)" by (cases "load_models w g h")
  show ?thesis
  proof (cases ra)
    case None
    with a lm have "g1 = ga"
      by (auto simp add: predict_setup_def Let_def split: prod.splits outcome.splits option.splits if_splits)
    with load_models_ok[of w g h ga ha] lm None show ?thesis by (simp add: Let_def)
  next
    case (Some e)
    with a lm show ?thesis by (simp add: predict_setup_def)
  qed
qed

lemmas concrete_defs = quiet_def no_globals_def zip_upload_def jpg_upload_def request_def

lemmas setup_defs = predict_setup_def load_models_def get_input_data_def anonymize_images_def

lemma staged_prefix: "staged cur (xs @ ys) \<Longrightarrow> staged cur xs"
  by (induction cur xs rule: staged.induct)
     (auto split: call.splits result.splits option.splits)

lemma staged_append:
  "staged cur xs \<Longrightarrow> (\<forall>c. staged c ys) \<Longrightarrow> staged cur (xs @ ys)"
  by (induction cur xs rule: staged.induct)
     (auto split: call.splits result.splits option.splits)

lemma staged_setup:
  "\<forall>c\<in>set xs. setup_call c \<Longrightarrow> staged cur (xs @ ys) = staged cur ys"
  by (induction xs) (auto split: call.splits)

lemma staged_iteration: "staged cur (calls_of (fst (iteration kw g t ns nf)))"
  by (simp add: iteration_def Let_def return_plot_def save_plot_nextcloud_def
        mount_nextcloud_def get_arr_from_bin_def split: option.splits)

lemma staged_loop:
  "predict_loop w kw g t ns h ps = (h', r) \<Longrightarrow> \<exists>tr. h' = h @ tr \<and> (\<forall>cur. staged cur tr)"
proof (induction ps arbitrary: h h' r)
  case Nil
  then show ?case by simp
next
  case (Cons nf rest)
  obtain body ret where it: "iteration kw g t ns nf = (body, ret)"
    by (cases "iteration kw g t ns nf")
  obtain h1 r1 where rn: "run w h body = (h1, r1)" by (cases "run w h body")
  from run_trace[OF rn] obtain t1 where t1: "h1 = h @ t1" "prefix t1 (calls_of body)" by auto
  have st1: "staged cur t1" for cur
    using t1(2) staged_iteration[of cur kw g t ns nf] it staged_prefix
    by (auto simp add: prefix_def)
  show ?case
  proof (cases "r1 = None \<and> ret = None")
    case True
    with Cons.prems it rn have "predict_loop w kw g t ns h1 rest = (h', r)" by simp
    from Cons.IH[OF this] obtain t2 where t2: "h' = h1 @ t2" "\<forall>cur. staged cur t2" by auto
    have "staged cur (t1 @ t2)" for cur using staged_append[OF st1 t2(2)] .
    with t1 t2 show ?thesis by auto
  next
    case False
    with Cons.prems it rn have "h' = h1" by (auto split: option.splits)
    with t1 st1 show ?thesis by auto
  qed
qed

lemma load_models_trace:
  "load_models w g h = (g1, h1, r) \<Longrightarrow> \<exists>ts. h1 = h @ ts \<and> (\<forall>c\<in>set ts. setup_call c)"
  by (auto simp add: load_models_def Let_def split: if_splits)

lemma get_input_data_trace:
  "get_input_data w h data = (h1, r) \<Longrightarrow> \<exists>ts. h1 = h @ ts \<and> (\<forall>c\<in>set ts. setup_call c)"
  by (auto simp add: get_input_data_def Let_def split: if_splits)

lemma anonymize_images_trace:
  "anonymize_images w h fs ns = (h1, r) \<Longrightarrow> \<exists>ts. h1 = h @ ts \<and> (\<forall>c\<in>set ts. setup_call c)"
  by (auto simp add: anonymize_images_def Let_def split: if_splits)

lemma predict_setup_trace:
  assumes "predict_setup w g kw h = (g1, h1, r)"
  shows "\<exists>ts. h1 = h @ ts \<and> (\<forall>c\<in>set ts. setup_call c)"
proof -
  obtain ga ha ra where lm: "load_models w g h = (ga, ha, ra)" by (cases "load_models w g h")
  from load_models_trace[OF lm] obtain ta where ta: "ha = h @ ta" "\<forall>c\<in>set ta. setup_call c" by auto
  show ?thesis
  proof (cases ra)
    case (Some e)
    with assms lm ta show ?thesis by (auto simp add: predict_setup_def)
  next
    case None
    obtain hb rb where gi: "get_input_data w ha (files kw) = (hb, rb)"
      by (cases "get_input_data w ha (files kw)")
    from get_input_data_trace[OF gi] obtain tb where tb: "hb = ha @ tb" "\<forall>c\<in>set tb. setup_call c" by auto
    show ?thesis
    proof (cases rb)
      case (Raised e)
      with assms lm None gi ta tb show ?thesis by (auto simp add: predict_setup_def Let_def)
    next
      case (Returned nf)
      obtain names fs where nf: "nf = (names, fs)" by (cases nf)
      obtain hc rc where an: "(if face_detection kw then anonymize_images w hb fs names
                               else (hb, Returned fs)) = (hc, rc)"
        by (cases "if face_detection kw then anonymize_images w hb fs names else (hb, Returned fs)")
      have "\<exists>tc. hc = hb @ tc \<and> (\<forall>c\<in>set tc. setup_call c)"
        using an anonymize_images_trace[of w hb fs names hc rc] by (auto split: if_splits)
      then obtain tc where tc: "hc = hb @ tc" "\<forall>c\<in>set tc. setup_call c" by auto
      have "\<exists>td. h1 = hc @ td \<and> (\<forall>c\<in>set td. setup_call c)"
        using assms lm None gi Returned nf an
        by (cases rc) (auto simp add: predict_setup_def Let_def split: if_splits)
      then obtain td where td: "h1 = hc @ td" "\<forall>c\<in>set td. setup_call c" by auto
      have "h1 = h @ (ta @ tb @ tc @ td)" using ta tb tc td by simp
      moreover have "\<forall>c\<in>set (ta @ tb @ tc @ td). setup_call c" using ta tb tc td by auto
      ultimately show ?thesis by blast
    qed
  qed
qed

lemma predict_cases:
  assumes "predict w g kw h = (g', h', r)"
  obtains (setup_raised) ts e where
      "h' = h @ ts" "\<forall>c\<in>set ts. setup_call c" "r = Raised e"
    | (looped) ts names fs tmp tl where
      "predict_setup w g kw h = (g', h @ ts, Returned (names, fs, tmp))"
      "\<forall>c\<in>set ts. setup_call c"
      "predict_loop w kw g' tmp names (h @ ts) (zip names fs) = (h @ ts @ tl, r)"
      "h' = h @ ts @ tl"
proof -
  obtain g1 h1 r1 where su: "predict_setup w g kw h = (g1, h1, r1)"
    by (cases "predict_setup w g kw h") auto
  from predict_setup_trace[OF su] obtain ts where ts: "h1 = h @ ts" "\<forall>c\<in>set ts. setup_call c" by auto
  show ?thesis
  proof (cases r1)
    case (Raised e)
    with assms su have "h' = h1" "r = Raised e" by (simp_all add: predict_def)
    with ts setup_raised show ?thesis by blast
  next
    case (Returned x)
    obtain names fs tmp where x: "x = (names, fs, tmp)" by (cases x)
    obtain h2 r2 where lp: "predict_loop w kw g1 tmp names h1 (zip names fs) = (h2, r2)"
      by (cases "predict_loop w kw g1 tmp names h1 (zip names fs)")
    from staged_loop[OF lp] obtain tl where tl: "h2 = h1 @ tl" by auto
    from assms su Returned x lp have e: "h' = h2" "g' = g1" "r = r2" by (simp_all add: predict_def)
    show ?thesis
      using looped[of ts names fs tmp tl] su Returned x lp ts tl e by simp
  qed
qed

lemma setup_call_not_output: "setup_call c \<Longrightarrow> \<not> output_call c \<and> \<not> delivery_call c \<and> \<not> is_print c"
  by (cases c) auto

lemma loop_calls:
  "predict_loop w kw g t ns h ps = (h', r) \<Longrightarrow>
     \<exists>tr. h' = h @ tr \<and> (\<forall>c\<in>set tr. \<exists>nf\<in>set ps. c \<in> set (calls_of (fst (iteration kw g t ns nf))))"
proof (induction ps arbitrary: h h' r)
  case Nil
  then show ?case by simp
next
  case (Cons nf rest)
  obtain body ret where it: "iteration kw g t ns nf = (body, ret)"
    by (cases "iteration kw g t ns nf")
  obtain h1 r1 where rn: "run w h body = (h1, r1)" by (cases "run w h body")
  from run_trace[OF rn] obtain t1 where t1: "h1 = h @ t1" "prefix t1 (calls_of body)" by auto
  have s1: "set t1 \<subseteq> set (calls_of (fst (iteration kw g t ns nf)))"
    using t1(2) it set_mono_prefix by fastforce
  show ?case
  proof (cases "r1 = None \<and> ret = None")
    case True
    with Cons.prems it rn have "predict_loop w kw g t ns h1 rest = (h', r)" by simp
    from Cons.IH[OF this] obtain t2 where t2: "h' = h1 @ t2"
      "\<forall>c\<in>set t2. \<exists>nf\<in>set rest. c \<in> set (calls_of (fst (iteration kw g t ns nf)))" by auto
    have "h' = h @ (t1 @ t2)" using t1 t2 by simp
    moreover have "\<forall>c\<in>set (t1 @ t2). \<exists>nf\<in>set (nf # rest). c \<in> set (calls_of (fst (iteration kw g t ns nf)))"
      using s1 t2(2) by auto
    ultimately show ?thesis by blast
  next
    case False
    with Cons.prems it rn have "h' = h1" by (auto split: option.splits)
    with t1 s1 show ?thesis by auto
  qed
qed

lemma loop_returns_handle:
  "predict_loop w kw g t ns h ps = (h', Returned (Some x)) \<Longrightarrow>
     \<exists>nf\<in>set ps. snd (iteration kw g t ns nf) \<noteq> None"
proof (induction ps arbitrary: h)
  case Nil
  then show ?case by simp
next
  case (Cons nf rest)
  then show ?case
    by (auto split: prod.splits option.splits)
qed

lemma iteration_no_return:
  "output_type kw \<noteq> ''Download'' \<or> (\<not> PLD_plot kw \<and> \<not> PLQ_plot kw) \<Longrightarrow>
     snd (iteration kw g t ns nf) = None"
  apply (cases "content_type (files kw) = ''application/octet-stream''")
   apply (simp add: iteration_octet)
  apply (auto simp add: iteration_def Let_def split: option.splits)
  done

lemma iteration_no_flags:
  "\<not> PLD_plot kw \<Longrightarrow> \<not> PLQ_plot kw \<Longrightarrow> model_PLD g = Some m1 \<Longrightarrow> content_type (files kw) \<noteq> ''application/octet-stream'' \<Longrightarrow>
     iteration kw g t ns nf =
       ([Call (Decode (image_of nf)), Call (Classify (PLD_result (image_of nf) ns m1)),
         Call (Get_dataframe (PLD_df (PLD_result (image_of nf) ns m1) ''PLD''))], None)"
  by (simp add: iteration_def Let_def image_of_def get_arr_from_bin_def)

lemma iteration_no_flags_calls:
  "\<not> PLD_plot kw \<Longrightarrow> \<not> PLQ_plot kw \<Longrightarrow>
     \<forall>c\<in>set (calls_of (fst (iteration kw g t ns nf))). \<not> output_call c \<and> \<not> is_print c"
  apply (cases "content_type (files kw) = ''application/octet-stream''")
   apply (simp add: iteration_octet)
  apply (simp add: iteration_def Let_def split: option.splits)
  done

lemma iteration_no_delivery:
  "output_type kw \<noteq> ''Download'' \<Longrightarrow> output_type kw \<noteq> ''nextcloud'' \<Longrightarrow>
     \<forall>c\<in>set (calls_of (fst (iteration kw g t ns nf))). \<not> delivery_call c"
  apply (cases "content_type (files kw) = ''application/octet-stream''")
   apply (simp add: iteration_octet)
  apply (simp add: iteration_def Let_def return_plot_def split: option.splits)
  done

lemma load_models_no_fail:
  "\<forall>h c. \<not> fails w h c \<Longrightarrow> \<exists>g1 h1. load_models w g h = (g1, h1, None)"
  by (simp add: load_models_def Let_def)

lemma get_input_data_no_fail:
  "\<forall>h c. \<not> fails w h c \<Longrightarrow> \<exists>h1 names fs. get_input_data w h data = (h1, Returned (names, fs))"
  by (simp add: get_input_data_def Let_def)

lemma anonymize_images_no_fail:
  "\<forall>h c. \<not> fails w h c \<Longrightarrow> \<exists>h1 fs'. anonymize_images w h fs ns = (h1, Returned fs')"
  by (simp add: anonymize_images_def Let_def)

lemma predict_setup_no_fail:
  assumes nofail: "\<forall>h c. \<not> fails w h c"
  shows "\<exists>g1 h1 names fs tmp. predict_setup w g kw h = (g1, h1, Returned (names, fs, tmp))"
proof -
  from load_models_no_fail[OF nofail] obtain g1 h1 where
    lm: "load_models w g h = (g1, h1, None)" by blast
  from get_input_data_no_fail[OF nofail] obtain h2 names fs where
    gi: "get_input_data w h1 (files kw) = (h2, Returned (names, fs))" by blast
  from anonymize_images_no_fail[OF nofail, of h2 fs names] obtain h3 fs' where
    an: "anonymize_images w h2 fs names = (h3, Returned fs')" by blast
  have mk: "run w hh [Call (Mkdtemp (mkdtemp_result w hh))]
              = (hh @ [Mkdtemp (mkdtemp_result w hh)], None)" for hh
    using nofail by simp
  show ?thesis
  proof (cases "face_detection kw")
    case True
    have "predict_setup w g kw h =
            (g1, h3 @ [Mkdtemp (mkdtemp_result w h3)], Returned (names, fs', mkdtemp_result w h3))"
      by (simp only: predict_setup_def Let_def lm gi an mk True if_True prod.case
            option.case outcome.case)
    then show ?thesis by blast
  next
    case False
    have "predict_setup w g kw h =
            (g1, h2 @ [Mkdtemp (mkdtemp_result w h2)], Returned (names, fs, mkdtemp_result w h2))"
      by (simp only: predict_setup_def Let_def lm gi mk False if_False prod.case
            option.case outcome.case)
    then show ?thesis by blast
  qed
qed

lemma predict_no_fail:
  assumes nofail: "\<forall>h c. \<not> fails w h c"
      and nonoct: "content_type (files kw) \<noteq> ''application/octet-stream''"
  obtains g1 h1 names fs tmp m1 m2 where
    "predict_setup w g kw h = (g1, h1, Returned (names, fs, tmp))"
    "model_PLD g1 = Some m1" "model_PLQ g1 = Some m2"
    "predict w g kw h =
       (g1, h1 @ concat (map (\<lambda>nf. calls_of (fst (iteration kw g1 tmp names nf)))
                          (processed kw (zip names fs))),
        Returned (if output_type kw = ''Download'' \<and> (PLD_plot kw \<or> PLQ_plot kw) \<and> zip names fs \<noteq> []
                  then map_option Handle_rb (snd (iteration kw g1 tmp names (hd (zip names fs))))
                  else None))"
proof -
  from predict_setup_no_fail[OF nofail, of g kw h] obtain g1 h1 names fs tmp where
    su: "predict_setup w g kw h = (g1, h1, Returned (names, fs, tmp))" by blast
  from predict_setup_models[OF su] obtain m1 m2 where
    g: "model_PLD g1 = Some m1" "model_PLQ g1 = Some m2" by auto
  show ?thesis
    using that[OF su g] loop_no_fail[OF nofail g nonoct, where t=tmp and ns=names and h=h1 and ps="zip names fs"] su
    by (simp add: predict_def)
qed

lemma concat_singletons: "concat (map (\<lambda>x. [y]) xs) = replicate (length xs) y"
  by (induction xs) auto

lemma iteration_prints:
  "output_type kw \<noteq> ''Download'' \<Longrightarrow> output_type kw \<noteq> ''nextcloud'' \<Longrightarrow>
   PLD_plot kw \<or> PLQ_plot kw \<Longrightarrow> model_PLD g = Some m1 \<Longrightarrow> model_PLQ g = Some m2 \<Longrightarrow>
   content_type (files kw) \<noteq> ''application/octet-stream'' \<Longrightarrow>
     filter is_print (calls_of (fst (iteration kw g t ns nf))) = [Print ''no output type selected'']
     \<and> last (calls_of (fst (iteration kw g t ns nf))) = Print ''no output type selected''"
  by (auto simp add: iteration_def Let_def return_plot_def)



lemma after_load_uses: "after_load c \<Longrightarrow> uses_models m1 m2 c"
  by (cases c) auto

lemma iteration_globals:
  "model_PLD g = model_PLD g0 \<Longrightarrow> model_PLQ g = model_PLQ g0 \<Longrightarrow>
     iteration kw g t ns nf = iteration kw g0 t ns nf"
  by (simp only: iteration_def)

lemma loop_globals:
  assumes "model_PLD g = model_PLD g0" "model_PLQ g = model_PLQ g0"
  shows "predict_loop w kw g t ns h ps = predict_loop w kw g0 t ns h ps"
  by (induction ps arbitrary: h) (simp_all add: iteration_globals[OF assms] split: prod.splits option.splits)

lemma iteration_uses_models:
  "model_PLD g = Some m1 \<Longrightarrow> model_PLQ g = Some m2 \<Longrightarrow>
     \<forall>c\<in>set (calls_of (fst (iteration kw g t ns nf))). uses_models m1 m2 c"
  apply (cases "content_type (files kw) = ''application/octet-stream''")
   apply (simp add: iteration_octet)
  apply (simp add: iteration_def Let_def return_plot_def save_plot_nextcloud_def
        mount_nextcloud_def)
  done

lemma iteration_no_name_error:
  "model_PLD g = Some m1 \<Longrightarrow> model_PLQ g = Some m2 \<Longrightarrow>
     \<not> name_errors (fst (iteration kw g t ns nf))"
  apply (cases "content_type (files kw) = ''application/octet-stream''")
   apply (simp add: iteration_octet)
  apply (simp add: iteration_def Let_def return_plot_def save_plot_nextcloud_def
        mount_nextcloud_def)
  done

lemma run_no_name_error:
  "\<not> name_errors ss \<Longrightarrow> run w h ss = (h', Some e) \<Longrightarrow> \<not> is_name_error e"
  by (induction w h ss rule: run.induct) (auto split: if_splits)

lemma loop_no_name_error:
  assumes g: "model_PLD g = Some m1" "model_PLQ g = Some m2"
  shows "predict_loop w kw g t ns h ps = (h', Raised e) \<Longrightarrow> \<not> is_name_error e"
proof (induction ps arbitrary: h)
  case Nil
  then show ?case by simp
next
  case (Cons nf rest)
  obtain body ret where it: "iteration kw g t ns nf = (body, ret)"
    by (cases "iteration kw g t ns nf")
  have nr: "\<not> name_errors body" using iteration_no_name_error[OF g, of kw t ns nf] it by simp
  obtain h1 r1 where rn: "run w h body = (h1, r1)" by (cases "run w h body")
  show ?case
  proof (cases r1)
    case (Some e1)
    with Cons.prems it rn have "e = e1" by simp
    with run_no_name_error[OF nr] rn Some show ?thesis by simp
  next
    case None
    with Cons.prems it rn Cons.IH[of h1] show ?thesis by (cases ret) auto
  qed
qed

lemma load_models_eq:
  "load_models w g h =
     (let c1 = Preprocessing_warm ''litter-assessment/models/PLD_CNN.h5''
                 (warm_result w h ''litter-assessment/models/PLD_CNN.h5'');
          c2 = Preprocessing_warm ''litter-assessment/models/PLQ_CNN.h5''
                 (warm_result w (h @ [c1]) ''litter-assessment/models/PLQ_CNN.h5'')
      in if fails w h c1 then (g, h @ [c1], Some (Call_failed c1))
         else if fails w (h @ [c1]) c2
           then (g\<lparr>model_PLD := Some (warm_result w h ''litter-assessment/models/PLD_CNN.h5'')\<rparr>,
                 h @ [c1, c2], Some (Call_failed c2))
         else (g\<lparr>model_PLD := Some (warm_result w h ''litter-assessment/models/PLD_CNN.h5''),
                  model_PLQ := Some (warm_result w (h @ [c1]) ''litter-assessment/models/PLQ_CNN.h5'')\<rparr>,
               h @ [c1, c2], None))"
  by (simp add: load_models_def Let_def)

lemma get_input_data_after_load:
  "get_input_data w h data = (h1, r) \<Longrightarrow>
     \<exists>ts. h1 = h @ ts \<and> (\<forall>c\<in>set ts. after_load c) \<and> (\<forall>e. r = Raised e \<longrightarrow> is_call_failed e)"
  by (auto simp add: get_input_data_def Let_def split: if_splits)

lemma anonymize_images_after_load:
  "anonymize_images w h fs ns = (h1, r) \<Longrightarrow>
     \<exists>ts. h1 = h @ ts \<and> (\<forall>c\<in>set ts. after_load c) \<and> (\<forall>e. r = Raised e \<longrightarrow> is_call_failed e)"
  by (auto simp add: anonymize_images_def Let_def split: if_splits)

lemma predict_setup_shape:
  assumes "predict_setup w g kw h = (g1, h1, r1)"
  shows "let m1 = warm_result w h ''litter-assessment/models/PLD_CNN.h5'';
             c1 = Preprocessing_warm ''litter-assessment/models/PLD_CNN.h5'' m1;
             m2 = warm_result w (h @ [c1]) ''litter-assessment/models/PLQ_CNN.h5'';
             c2 = Preprocessing_warm ''litter-assessment/models/PLQ_CNN.h5'' m2
         in (h1 = h @ [c1] \<and> r1 = Raised (Call_failed c1)) \<or>
            (h1 = h @ [c1, c2] \<and> r1 = Raised (Call_failed c2)) \<or>
            (\<exists>ts. h1 = h @ [c1, c2] @ ts \<and> (\<forall>c\<in>set ts. after_load c) \<and>
                  model_PLD g1 = Some m1 \<and> model_PLQ g1 = Some m2 \<and>
                  (\<forall>e. r1 = Raised e \<longrightarrow> is_call_failed e))"
proof -
  let ?m1 = "warm_result w h ''litter-assessment/models/PLD_CNN.h5''"
  let ?c1 = "Preprocessing_warm ''litter-assessment/models/PLD_CNN.h5'' ?m1"
  let ?m2 = "warm_result w (h @ [?c1]) ''litter-assessment/models/PLQ_CNN.h5''"
  let ?c2 = "Preprocessing_warm ''litter-assessment/models/PLQ_CNN.h5'' ?m2"
  show ?thesis
  proof (cases "fails w h ?c1")
    case True
    then show ?thesis using assms by (simp add: predict_setup_def load_models_eq Let_def)
  next
    case f1: False
    show ?thesis
    proof (cases "fails w (h @ [?c1]) ?c2")
      case True
      then show ?thesis using assms f1 by (simp add: predict_setup_def load_models_eq Let_def)
    next
      case f2: False
      let ?ga = "g\<lparr>model_PLD := Some ?m1, model_PLQ := Some ?m2\<rparr>"
      let ?ha = "h @ [?c1, ?c2]"
      have lm: "load_models w g h = (?ga, ?ha, None)"
        using f1 f2 by (simp add: load_models_eq Let_def)
      obtain hb rb where gi: "get_input_data w ?ha (files kw) = (hb, rb)"
        by (cases "get_input_data w ?ha (files kw)")
      from get_input_data_after_load[OF gi] obtain tb where
        tb: "hb = ?ha @ tb" "\<forall>c\<in>set tb. after_load c" "\<forall>e. rb = Raised e \<longrightarrow> is_call_failed e" by auto
      show ?thesis
      proof (cases rb)
        case (Raised e)
        with assms lm gi have "g1 = ?ga" "h1 = hb" "r1 = Raised e"
          by (simp_all add: predict_setup_def Let_def)
        with tb Raised show ?thesis by (auto simp add: Let_def)
      next
        case (Returned nf)
        obtain names fs where nf: "nf = (names, fs)" by (cases nf)
        obtain hc rc where an: "(if face_detection kw then anonymize_images w hb fs names
                               else (hb, Returned fs)) = (hc, rc)"
          by (cases "if face_detection kw then anonymize_images w hb fs names else (hb, Returned fs)")
        have "\<exists>tc. hc = hb @ tc \<and> (\<forall>c\<in>set tc. after_load c) \<and> (\<forall>e. rc = Raised e \<longrightarrow> is_call_failed e)"
          using an anonymize_images_after_load[of w hb fs names hc rc] by (auto split: if_splits)
        then obtain tc where tc: "hc = hb @ tc" "\<forall>c\<in>set tc. after_load c"
          "\<forall>e. rc = Raised e \<longrightarrow> is_call_failed e" by auto
        have "g1 = ?ga \<and> (\<exists>td. h1 = hc @ td \<and> (\<forall>c\<in>set td. after_load c)) \<and>
              (\<forall>e. r1 = Raised e \<longrightarrow> is_call_failed e)"
          using assms lm gi Returned nf an tc(3)
          by (cases rc) (auto simp add: predict_setup_def Let_def split: if_splits)
        then obtain td where td: "g1 = ?ga" "h1 = hc @ td" "\<forall>c\<in>set td. after_load c"
          "\<forall>e. r1 = Raised e \<longrightarrow> is_call_failed e" by auto
        have "h1 = h @ [?c1, ?c2] @ (tb @ tc @ td)" using tb tc td by simp
        moreover have "\<forall>c\<in>set (tb @ tc @ td). after_load c" using tb tc td by auto
        ultimately have "\<exists>ts. h1 = h @ [?c1, ?c2] @ ts \<and> (\<forall>c\<in>set ts. after_load c) \<and>
                  model_PLD g1 = Some ?m1 \<and> model_PLQ g1 = Some ?m2 \<and>
                  (\<forall>e. r1 = Raised e \<longrightarrow> is_call_failed e)"
          using td(1,4) by (intro exI[of _ "tb @ tc @ td"]) simp
        then show ?thesis unfolding Let_def by blast
      qed
    qed
  qed
qed

lemma load_models_globals:
  "snd (load_models w g h) = snd (load_models w g0 h)"
  by (simp add: load_models_eq Let_def)

lemma predict_setup_snd:
  "snd (predict_setup w g kw h) =
     (case snd (load_models w g h) of
        (h1, Some e) \<Rightarrow> (h1, Raised e)
      | (h1, None) \<Rightarrow>
          (case get_input_data w h1 (files kw) of
             (h2, Raised e) \<Rightarrow> (h2, Raised e)
           | (h2, Returned (image_names, image_files)) \<Rightarrow>
               (case (if face_detection kw
                      then anonymize_images w h2 image_files image_names
                      else (h2, Returned image_files)) of
                  (h3, Raised e) \<Rightarrow> (h3, Raised e)
                | (h3, Returned image_files') \<Rightarrow>
                    (case run w h3 [Call (Mkdtemp (mkdtemp_result w h3))] of
                       (h4, Some e) \<Rightarrow> (h4, Raised e)
                     | (h4, None) \<Rightarrow>
                         (h4, Returned (image_names, image_files', mkdtemp_result w h3))))))"
  unfolding predict_setup_def Let_def
  by (simp split: prod.splits option.splits outcome.splits del: run.simps)

lemma predict_setup_globals:
  "snd (predict_setup w g kw h) = snd (predict_setup w g0 kw h)"
  by (simp only: predict_setup_snd load_models_globals[of w g h g0])

lemma files_after_append: "files_after fs (xs @ ys) = files_after (files_after fs xs) ys"
  by (induction fs xs rule: files_after.induct) auto

lemma files_after_setup: "\<forall>c\<in>set ts. setup_call c \<Longrightarrow> files_after fs ts = fs"
  by (induction ts) (auto elim: setup_call.elims)

lemma basename_no_slash: "CHR ''/'' \<notin> set (os_path_basename p)"
proof -
  have "\<forall>c\<in>set (takeWhile (\<lambda>c. c \<noteq> CHR ''/'') (rev p)). c \<noteq> CHR ''/''"
    using set_takeWhileD by fastforce
  then show ?thesis by (auto simp add: os_path_basename_def)
qed

lemma drop_last4_no_slash: "CHR ''/'' \<notin> set (drop_last4 (os_path_basename p))"
  using basename_no_slash[of p] by (auto simp add: drop_last4_def dest: in_set_takeD)

lemma join_no_slash:
  "CHR ''/'' \<notin> set x \<Longrightarrow> os_path_join a (x @ y) = os_path_join a [] @ x @ y \<or> x = []"
  by (cases x) (auto simp add: os_path_join_def)

lemma output_path_split:
  "output_path_of t nf @ CHR ''_'' # y = os_path_join t [] @ drop_last4 (os_path_basename (fst nf)) @ CHR ''_'' # y"
proof -
  let ?s = "drop_last4 (os_path_basename (fst nf))"
  have "os_path_join t ?s = os_path_join t [] @ ?s"
  proof (cases ?s)
    case Nil
    then show ?thesis by simp
  next
    case (Cons c cs)
    then have "c \<noteq> CHR ''/''" using drop_last4_no_slash[of "fst nf"] by auto
    with Cons show ?thesis by (simp add: os_path_join_def)
  qed
  then show ?thesis by (simp add: output_path_of_def)
qed

lemma relative_to_under:
  "rest \<noteq> [] \<Longrightarrow> relative_to t (os_path_join t [] @ rest) = Some rest"
  by (simp add: relative_to_def Let_def)

lemma map_of_replace:
  "p \<in> set (map fst fs) \<Longrightarrow>
     map_of (map (\<lambda>(q, d). if q = p then (q, c) else (q, d)) fs) p = Some c"
  by (induction fs) auto

lemma map_of_append_new: "p \<notin> set (map fst fs) \<Longrightarrow> map_of (fs @ [(p, c)]) p = Some c"
  by (induction fs) auto

lemma map_of_store: "map_of (store p c fs) p = Some c"
  using map_of_replace[of p fs c] map_of_append_new[of p fs c] by (simp add: store_def)

lemma iteration_both_download:
  assumes "PLD_plot kw" "PLQ_plot kw" "output_type kw = ''Download''"
    "model_PLD g = Some m1" "model_PLQ g = Some m2"
    "content_type (files kw) \<noteq> ''application/octet-stream''"
  shows "calls_of (fst (iteration kw g t ns nf)) =
           [Decode (image_of nf),
            Classify (PLD_result (image_of nf) ns m1),
            Get_dataframe (PLD_df (PLD_result (image_of nf) ns m1) ''PLD''),
            Get_plot (ResultPlot (PLD_result (image_of nf) ns m1) ''PLD''),
            Savefig (ResultPlot (PLD_result (image_of nf) ns m1) ''PLD'')
                      (output_path_of t nf @ ''_PLD.jpg''),
            Classify (PLQ_result (c_matrix (PLD_result (image_of nf) ns m1))
                      (image_of nf) ns m2),
            Get_dataframe (PLQ_df (PLQ_result (c_matrix (PLD_result (image_of nf) ns m1))
                      (image_of nf) ns m2) ''PLQ''),
            Get_plot (ResultPlot (PLQ_result (c_matrix (PLD_result (image_of nf) ns m1))
                      (image_of nf) ns m2) ''PLQ''),
            Savefig (ResultPlot (PLQ_result (c_matrix (PLD_result (image_of nf) ns m1))
                      (image_of nf) ns m2) ''PLQ'') (output_path_of t nf @ ''_PLQ.jpg''),
            workbook_of m1 m2 t ns nf,
            Make_archive t ''zip'' t,
            Open_rb (t @ ''.zip'')]"
  using assms
  by (simp add: iteration_def Let_def return_plot_def plot_file_def image_of_def
        get_arr_from_bin_def output_path_of_def workbook_of_def)

lemma archive_of_both_download:
  "map_of (files_after []
      [Decode i, Classify rd, Get_dataframe dd, Get_plot fd,
       Savefig fd (output_path_of t nf @ ''_PLD.jpg''),
       Classify rq, Get_dataframe dq, Get_plot fq,
       Savefig fq (output_path_of t nf @ ''_PLQ.jpg''),
       Excel_write (output_path_of t nf @ ''_litter_items.xlsx'') sh,
       Make_archive t ''zip'' t,
       Open_rb (t @ ''.zip'')]) (t @ ''.zip'') =
   Some (Zip [drop_last4 (os_path_basename (fst nf)) @ ''_PLD.jpg'',
              drop_last4 (os_path_basename (fst nf)) @ ''_PLQ.jpg'',
              drop_last4 (os_path_basename (fst nf)) @ ''_litter_items.xlsx''])"
proof -
  let ?P = "output_path_of t nf"
  let ?fs = "[(?P @ ''_PLD.jpg'', Jpg fd), (?P @ ''_PLQ.jpg'', Jpg fq),
              (?P @ ''_litter_items.xlsx'', Xlsx sh)]"
  have m: "members t ?fs =
             [drop_last4 (os_path_basename (fst nf)) @ ''_PLD.jpg'',
              drop_last4 (os_path_basename (fst nf)) @ ''_PLQ.jpg'',
              drop_last4 (os_path_basename (fst nf)) @ ''_litter_items.xlsx'']"
    by (simp add: members_def List.map_filter_simps output_path_split relative_to_under)
  have "files_after []
      [Decode i, Classify rd, Get_dataframe dd, Get_plot fd,
       Savefig fd (?P @ ''_PLD.jpg''),
       Classify rq, Get_dataframe dq, Get_plot fq,
       Savefig fq (?P @ ''_PLQ.jpg''),
       Excel_write (?P @ ''_litter_items.xlsx'') sh,
       Make_archive t ''zip'' t,
       Open_rb (t @ ''.zip'')] = store (t @ ''.zip'') (Zip (members t ?fs)) ?fs"
    by (simp add: store_def)
  then show ?thesis by (simp only: map_of_store m)
qed

lemma predict_setup_single:
  assumes nofail: "\<forall>h c. \<not> fails w h c"
      and nonzip: "content_type (files kw) \<noteq> ''application/zip''"
      and anon: "\<forall>hh fs ns. length (anonymize_result w hh fs ns) = length fs"
  shows "\<exists>g1 ts f tmp. predict_setup w g kw h =
             (g1, h @ ts @ [Mkdtemp tmp], Returned ([original_filename (files kw)], [f], tmp))
           \<and> (\<forall>c\<in>set ts. setup_call c)"
proof -
  from load_models_no_fail[OF nofail] obtain g1 h1 where
    lm: "load_models w g h = (g1, h1, None)" by blast
  from load_models_trace[OF lm] obtain ta where
    ta: "h1 = h @ ta" "\<forall>c\<in>set ta. setup_call c" by auto
  have gi: "get_input_data w h1 (files kw) =
              (h1, Returned ([original_filename (files kw)], [filename (files kw)]))"
    using nonzip by (simp add: get_input_data_def)
  have mk: "run w hh [Call (Mkdtemp (mkdtemp_result w hh))]
              = (hh @ [Mkdtemp (mkdtemp_result w hh)], None)" for hh
    using nofail by simp
  show ?thesis
  proof (cases "face_detection kw")
    case True
    let ?a = "anonymize_result w h1 [filename (files kw)] [original_filename (files kw)]"
    let ?c = "Anonymize_images [filename (files kw)] [original_filename (files kw)] ?a"
    have an: "anonymize_images w h1 [filename (files kw)] [original_filename (files kw)]
                = (h1 @ [?c], Returned ?a)"
      using nofail by (simp add: anonymize_images_def Let_def)
    have "length ?a = 1" using anon by simp
    then obtain f where f: "?a = [f]" by (cases ?a) auto
    have "predict_setup w g kw h =
            (g1, (h1 @ [?c]) @ [Mkdtemp (mkdtemp_result w (h1 @ [?c]))],
             Returned ([original_filename (files kw)], ?a, mkdtemp_result w (h1 @ [?c])))"
      by (simp only: predict_setup_def Let_def lm gi an mk True if_True prod.case
            option.case outcome.case)
    then have "predict_setup w g kw h =
            (g1, h @ (ta @ [?c]) @ [Mkdtemp (mkdtemp_result w (h1 @ [?c]))],
             Returned ([original_filename (files kw)], [f], mkdtemp_result w (h1 @ [?c])))"
      using ta(1) f by simp
    moreover have "\<forall>c\<in>set (ta @ [?c]). setup_call c" using ta(2) by simp
    ultimately show ?thesis by blast
  next
    case False
    have "predict_setup w g kw h =
            (g1, h1 @ [Mkdtemp (mkdtemp_result w h1)],
             Returned ([original_filename (files kw)], [filename (files kw)], mkdtemp_result w h1))"
      by (simp only: predict_setup_def Let_def lm gi mk False if_False prod.case
            option.case outcome.case)
    then have "predict_setup w g kw h =
            (g1, h @ ta @ [Mkdtemp (mkdtemp_result w h1)],
             Returned ([original_filename (files kw)], [filename (files kw)], mkdtemp_result w h1))"
      using ta(1) by simp
    with ta(2) show ?thesis by blast
  qed
qed

lemma iteration_pld_download:
  assumes "PLD_plot kw" "\<not> PLQ_plot kw" "output_type kw = ''Download''"
    "model_PLD g = Some m1" "content_type (files kw) \<noteq> ''application/octet-stream''"
  shows "calls_of (fst (iteration kw g t ns nf)) =
           [Decode (image_of nf),
            Classify (PLD_result (image_of nf) ns m1),
            Get_dataframe (PLD_df (PLD_result (image_of nf) ns m1) ''PLD''),
            Get_plot (ResultPlot (PLD_result (image_of nf) ns m1) ''PLD''),
            Savefig (ResultPlot (PLD_result (image_of nf) ns m1) ''PLD'')
              (output_path_of t nf @ ''_PLD.jpg''),
            Open_rb (output_path_of t nf @ ''_PLD.jpg'')]"
  using assms
  by (simp add: iteration_def Let_def return_plot_def plot_file_def image_of_def output_path_of_def)

lemma iteration_plq_download:
  assumes "\<not> PLD_plot kw" "PLQ_plot kw" "output_type kw = ''Download''"
    "model_PLD g = Some m1" "model_PLQ g = Some m2"
    "content_type (files kw) \<noteq> ''application/octet-stream''"
  shows "calls_of (fst (iteration kw g t ns nf)) =
           [Decode (image_of nf),
            Classify (PLD_result (image_of nf) ns m1),
            Get_dataframe (PLD_df (PLD_result (image_of nf) ns m1) ''PLD''),
            Classify (PLQ_result (c_matrix (PLD_result (image_of nf) ns m1)) (image_of nf) ns m2),
            Get_plot (ResultPlot
              (PLQ_result (c_matrix (PLD_result (image_of nf) ns m1)) (image_of nf) ns m2) ''PLQ''),
            Savefig (ResultPlot
              (PLQ_result (c_matrix (PLD_result (image_of nf) ns m1)) (image_of nf) ns m2) ''PLQ'')
              (output_path_of t nf @ ''_PLQ.jpg''),
            Open_rb (output_path_of t nf @ ''_PLQ.jpg'')]"
  using assms
  by (simp add: iteration_def Let_def return_plot_def plot_file_def image_of_def output_path_of_def)

lemma plot_of_pld_download:
  "map_of (files_after [] [Decode i, Classify rd, Get_dataframe dd, Get_plot f, Savefig f p, Open_rb p]) p
     = Some (Jpg f)"
  by (simp add: store_def)

lemma plot_of_plq_download:
  "map_of (files_after []
      [Decode i, Classify rd, Get_dataframe dd, Classify rq, Get_plot f, Savefig f p, Open_rb p]) p
     = Some (Jpg f)"
  by (simp add: store_def)

lemma predict_octet_upload:
  "predict quiet no_globals (request octet_upload pld plq out) [] =
     (\<lparr>model_PLD = Some (Model 0), model_PLQ = Some (Model 1)\<rparr>,
      [Preprocessing_warm ''litter-assessment/models/PLD_CNN.h5'' (Model 0),
       Preprocessing_warm ''litter-assessment/models/PLQ_CNN.h5'' (Model 1),
       Mkdtemp ''/tmp/txx''],
      Raised (TypeError ''a bytes-like object is required, not str''))"
proof -
  have oct: "content_type (files (request octet_upload pld plq out)) = ''application/octet-stream''"
    by (simp add: request_def octet_upload_def)
  have su: "predict_setup quiet no_globals (request octet_upload pld plq out) [] =
     (\<lparr>model_PLD = Some (Model 0), model_PLQ = Some (Model 1)\<rparr>,
      [Preprocessing_warm ''litter-assessment/models/PLD_CNN.h5'' (Model 0),
       Preprocessing_warm ''litter-assessment/models/PLQ_CNN.h5'' (Model 1),
       Mkdtemp ''/tmp/txx''],
      Returned ([''dune.jpg''], [''/tmp/up4''], ''/tmp/txx''))"
    by (simp add: setup_defs concrete_defs octet_upload_def Let_def)
  show ?thesis
    by (simp add: predict_def su iteration_octet[OF oct])
qed





lemma plot_name_three_letter_extension:
  assumes ext: "CHR ''.'' \<notin> set ext" "length ext = 3"
      and stem: "\<exists>c\<in>set stem. c \<noteq> CHR ''.''"
      and nosl: "CHR ''/'' \<notin> set (stem @ ''.'' @ ext)"
  shows "plot_file (output_path_of t (stem @ ''.'' @ ext, f)) ty
           = spec_plot_name t (stem @ ''.'' @ ext) ty"
proof -
  let ?name = "stem @ ''.'' @ ext"
  have bn: "os_path_basename ?name = ?name"
  proof -
    have "takeWhile (\<lambda>c. c \<noteq> CHR ''/'') (rev ?name) = rev ?name"
      using nosl by (intro takeWhile_eq_all_conv[THEN iffD2]) auto
    then have "rev (takeWhile (\<lambda>c. c \<noteq> CHR ''/'') (rev ?name)) = rev (rev ?name)"
      by (rule arg_cong)
    then show ?thesis unfolding os_path_basename_def by (simp only: rev_rev_ident)
  qed
  have d4: "drop_last4 ?name = stem" using ext(2) by (simp add: drop_last4_def)
  have tw: "takeWhile (\<lambda>c. c \<noteq> CHR ''.'') (rev ?name) = rev ext"
  proof -
    have "rev ?name = rev ext @ CHR ''.'' # rev stem" by simp
    moreover have "\<forall>c\<in>set (rev ext). c \<noteq> CHR ''.''" using ext(1) by auto
    ultimately show ?thesis by (simp add: takeWhile_tail)
  qed
  have dr: "drop (length (rev ext)) (rev ?name) = CHR ''.'' # rev stem" by simp
  have nd: "\<not> list_all (\<lambda>c. c = CHR ''.'') (rev stem)"
    using stem by (auto simp add: list_all_iff)
  have "spec_basename_without_extension ?name = stem"
    unfolding spec_basename_without_extension_def bn Let_def tw dr using nd by simp
  then show ?thesis
    using bn d4 by (simp add: plot_file_def output_path_of_def spec_plot_name_def)
qed

section \<open>The claims\<close>

text \<open>
  C8. For a payload of content type application/zip, get_input_data creates a
  temporary directory, extracts the whole archive into it and lists it: when none of the
  three calls raises, it returns the listed names together with one path per name,
  \<open>paths ! i\<close> being the directory joined with \<open>names ! i\<close>, and the calls it made are
  exactly mkdtemp, extractall into that directory, listdir of that directory. For any
  other content type it makes no call and returns the single name
  \<open>original_filename\<close> with the single path \<open>filename\<close>.
\<close>

theorem get_input_data_contract:
  "(content_type data = ''application/zip'' \<longrightarrow>
      (let d = mkdtemp_result w h;
           h1 = h @ [Mkdtemp d, Extractall (filename data) d];
           names = listdir_result w h1 d
       in (\<not> fails w h (Mkdtemp d) \<and> \<not> fails w (h @ [Mkdtemp d]) (Extractall (filename data) d)
             \<and> \<not> fails w h1 (Listdir d names) \<longrightarrow>
           (\<exists>paths. get_input_data w h data = (h1 @ [Listdir d names], Returned (names, paths))
              \<and> length paths = length names
              \<and> (\<forall>i < length names. paths ! i = os_path_join d (names ! i)))))) \<and>
   (content_type data \<noteq> ''application/zip'' \<longrightarrow>
      get_input_data w h data = (h, Returned ([original_filename data], [filename data])))"
  by (simp add: get_input_data_def Let_def)

theorem get_input_data_contract_witness:
  "content_type zip_upload = ''application/zip'' \<and>
   (\<exists>paths. get_input_data quiet [] zip_upload =
        ([Mkdtemp ''/tmp/t'', Extractall ''/tmp/up1'' ''/tmp/t'',
          Listdir ''/tmp/t'' [''a.jpg'', ''b.png'']],
         Returned ([''a.jpg'', ''b.png''], paths))
      \<and> length paths = length [''a.jpg'', ''b.png'']
      \<and> (\<forall>i < length [''a.jpg'', ''b.png''].
            paths ! i = os_path_join ''/tmp/t'' ([''a.jpg'', ''b.png''] ! i))) \<and>
   content_type jpg_upload \<noteq> ''application/zip'' \<and>
   get_input_data quiet [] jpg_upload = ([], Returned ([''beach.jpg''], [''/tmp/up2'']))"
  using get_input_data_contract [of zip_upload quiet "[]"]
        get_input_data_contract [of jpg_upload quiet "[]"]
  by (simp add: concrete_defs Let_def)

text \<open>
  C1. When \<open>output_type\<close> is Download and a plot flag is set, and the loop is entered
  with at least one pair (for a zip upload: the archive lists at least one image),
  predict behaves as if the first pair were the only one: whatever the calls do, the
  pairs after the first are never looked at. When no call raises (and the payload is not
  application/octet-stream, which a zip upload is not), the calls predict makes after its
  setup are exactly those of the first image: decoding, detection, its dataframe, then
  \<^item> with both flags: the PLD plot, quantification, its dataframe, the PLQ plot, the
    workbook, the archive of the scratch directory, and \<open>open\<close> of \<open><tmp_dir>.zip\<close>, an
    archive that holds the two plots and the workbook of the first image;
  \<^item> with \<open>PLD_plot\<close> only: the PLD plot saved as \<open><output_path>_PLD.jpg\<close> and \<open>open\<close>
    of that file;
  \<^item> with \<open>PLQ_plot\<close> only: quantification, the PLQ plot saved as
    \<open><output_path>_PLQ.jpg\<close> and \<open>open\<close> of that file;
  and predict returns the handle that this \<open>open\<close>, its last call, gave.
\<close>

theorem download_returns_on_first_image:
  assumes dl: "output_type kw = ''Download''" and flag: "PLD_plot kw \<or> PLQ_plot kw"
      and stp: "predict_setup w g kw h = (g1, h1, Returned (image_names, image_files, tmp_dir))"
      and pairs: "zip image_names image_files = nf # rest"
  shows "predict w g kw h = (g1, predict_loop w kw g1 tmp_dir image_names h1 [nf]) \<and>
         ((\<forall>h c. \<not> fails w h c) \<and> content_type (files kw) \<noteq> ''application/octet-stream'' \<longrightarrow>
            (\<exists>m1 m2 tr path.
               model_PLD g1 = Some m1 \<and> model_PLQ g1 = Some m2 \<and>
               predict w g kw h = (g1, h1 @ tr, Returned (Some (Handle_rb path))) \<and>
               last tr = Open_rb path \<and>
               (let image = image_of nf;
                    rd = PLD_result image image_names m1;
                    rq = PLQ_result (c_matrix rd) image image_names m2;
                    out = output_path_of tmp_dir nf;
                    stem = drop_last4 (os_path_basename (fst nf))
                in if PLD_plot kw \<and> PLQ_plot kw then
                     path = tmp_dir @ ''.zip'' \<and>
                     tr = [Decode image, Classify rd, Get_dataframe (PLD_df rd ''PLD''),
                           Get_plot (ResultPlot rd ''PLD''),
                           Savefig (ResultPlot rd ''PLD'') (out @ ''_PLD.jpg''),
                           Classify rq, Get_dataframe (PLQ_df rq ''PLQ''),
                           Get_plot (ResultPlot rq ''PLQ''),
                           Savefig (ResultPlot rq ''PLQ'') (out @ ''_PLQ.jpg''),
                           Excel_write (out @ ''_litter_items.xlsx'')
                             [(''Litter Detection'', PLD_df rd ''PLD''),
                              (''Litter Quantification'', PLQ_df rq ''PLQ'')],
                           Make_archive tmp_dir ''zip'' tmp_dir,
                           Open_rb (tmp_dir @ ''.zip'')] \<and>
                     map_of (files_after [] tr) path =
                       Some (Zip [stem @ ''_PLD.jpg'', stem @ ''_PLQ.jpg'',
                                  stem @ ''_litter_items.xlsx''])
                   else if PLD_plot kw then
                     path = out @ ''_PLD.jpg'' \<and>
                     tr = [Decode image, Classify rd, Get_dataframe (PLD_df rd ''PLD''),
                           Get_plot (ResultPlot rd ''PLD''),
                           Savefig (ResultPlot rd ''PLD'') (out @ ''_PLD.jpg''),
                           Open_rb (out @ ''_PLD.jpg'')] \<and>
                     map_of (files_after [] tr) path = Some (Jpg (ResultPlot rd ''PLD''))
                   else
                     path = out @ ''_PLQ.jpg'' \<and>
                     tr = [Decode image, Classify rd, Get_dataframe (PLD_df rd ''PLD''),
                           Classify rq, Get_plot (ResultPlot rq ''PLQ''),
                           Savefig (ResultPlot rq ''PLQ'') (out @ ''_PLQ.jpg''),
                           Open_rb (out @ ''_PLQ.jpg'')] \<and>
                     map_of (files_after [] tr) path = Some (Jpg (ResultPlot rq ''PLQ'')))))"
proof -
  have first: "predict w g kw h = (g1, predict_loop w kw g1 tmp_dir image_names h1 [nf])"
    using stp pairs loop_first_only[OF dl flag, of w g1 tmp_dir image_names h1 nf rest]
    by (simp add: predict_def split: prod.splits)
  obtain m1 m2 where g: "model_PLD g1 = Some m1" "model_PLQ g1 = Some m2"
    using predict_setup_models[OF stp] by auto
  let ?it = "calls_of (fst (iteration kw g1 tmp_dir image_names nf))"
  let ?path = "if PLD_plot kw \<and> PLQ_plot kw then tmp_dir @ ''.zip''
                  else if PLD_plot kw then output_path_of tmp_dir nf @ ''_PLD.jpg''
                  else output_path_of tmp_dir nf @ ''_PLQ.jpg''"
  have B: "\<exists>m1 m2 tr path.
               model_PLD g1 = Some m1 \<and> model_PLQ g1 = Some m2 \<and>
               predict w g kw h = (g1, h1 @ tr, Returned (Some (Handle_rb path))) \<and>
               last tr = Open_rb path \<and>
               (let image = image_of nf;
                    rd = PLD_result image image_names m1;
                    rq = PLQ_result (c_matrix rd) image image_names m2;
                    out = output_path_of tmp_dir nf;
                    stem = drop_last4 (os_path_basename (fst nf))
                in if PLD_plot kw \<and> PLQ_plot kw then
                     path = tmp_dir @ ''.zip'' \<and>
                     tr = [Decode image, Classify rd, Get_dataframe (PLD_df rd ''PLD''),
                           Get_plot (ResultPlot rd ''PLD''),
                           Savefig (ResultPlot rd ''PLD'') (out @ ''_PLD.jpg''),
                           Classify rq, Get_dataframe (PLQ_df rq ''PLQ''),
                           Get_plot (ResultPlot rq ''PLQ''),
                           Savefig (ResultPlot rq ''PLQ'') (out @ ''_PLQ.jpg''),
                           Excel_write (out @ ''_litter_items.xlsx'')
                             [(''Litter Detection'', PLD_df rd ''PLD''),
                              (''Litter Quantification'', PLQ_df rq ''PLQ'')],
                           Make_archive tmp_dir ''zip'' tmp_dir,
                           Open_rb (tmp_dir @ ''.zip'')] \<and>
                     map_of (files_after [] tr) path =
                       Some (Zip [stem @ ''_PLD.jpg'', stem @ ''_PLQ.jpg'',
                                  stem @ ''_litter_items.xlsx''])
                   else if PLD_plot kw then
                     path = out @ ''_PLD.jpg'' \<and>
                     tr = [Decode image, Classify rd, Get_dataframe (PLD_df rd ''PLD''),
                           Get_plot (ResultPlot rd ''PLD''),
                           Savefig (ResultPlot rd ''PLD'') (out @ ''_PLD.jpg''),
                           Open_rb (out @ ''_PLD.jpg'')] \<and>
                     map_of (files_after [] tr) path = Some (Jpg (ResultPlot rd ''PLD''))
                   else
                     path = out @ ''_PLQ.jpg'' \<and>
                     tr = [Decode image, Classify rd, Get_dataframe (PLD_df rd ''PLD''),
                           Classify rq, Get_plot (ResultPlot rq ''PLQ''),
                           Savefig (ResultPlot rq ''PLQ'') (out @ ''_PLQ.jpg''),
                           Open_rb (out @ ''_PLQ.jpg'')] \<and>
                     map_of (files_after [] tr) path = Some (Jpg (ResultPlot rq ''PLQ'')))"
    if nofail: "\<forall>h c. \<not> fails w h c"
      and nonoct: "content_type (files kw) \<noteq> ''application/octet-stream''"
  proof -
    have p: "predict w g kw h = (g1, h1 @ ?it, Returned (Some (Handle_rb ?path)))"
      using first loop_no_fail[OF nofail g nonoct, where t=tmp_dir and ns=image_names and h=h1 and ps="[nf]"]
        iteration_ret[OF g nonoct, of tmp_dir image_names nf] dl flag
      by (auto simp add: processed_def)
    consider (both) "PLD_plot kw" "PLQ_plot kw" | (pld) "PLD_plot kw" "\<not> PLQ_plot kw"
      | (plq) "\<not> PLD_plot kw" "PLQ_plot kw" using flag by blast
    then show ?thesis
    proof cases
      case both
      note it = iteration_both_download[OF both dl g nonoct, of tmp_dir image_names nf]
      have z: "map_of (files_after [] ?it) (tmp_dir @ ''.zip'') =
                 Some (Zip [drop_last4 (os_path_basename (fst nf)) @ ''_PLD.jpg'',
                            drop_last4 (os_path_basename (fst nf)) @ ''_PLQ.jpg'',
                            drop_last4 (os_path_basename (fst nf)) @ ''_litter_items.xlsx''])"
        unfolding it workbook_of_def Let_def
        using archive_of_both_download[of _ _ _ _ tmp_dir nf] by simp
      show ?thesis
        apply (rule exI[of _ m1], rule exI[of _ m2], rule exI[of _ ?it],
               rule exI[of _ "tmp_dir @ ''.zip''"])
        using g p both z it
        by (simp add: Let_def workbook_of_def)
    next
      case pld
      note it = iteration_pld_download[OF pld dl g(1) nonoct, of tmp_dir image_names nf]
      have z: "map_of (files_after [] ?it) (output_path_of tmp_dir nf @ ''_PLD.jpg'') =
                 Some (Jpg (ResultPlot (PLD_result (image_of nf) image_names m1) ''PLD''))"
        unfolding it by (rule plot_of_pld_download)
      show ?thesis
        apply (rule exI[of _ m1], rule exI[of _ m2], rule exI[of _ ?it],
               rule exI[of _ "output_path_of tmp_dir nf @ ''_PLD.jpg''"])
        using g p pld z it
        by (simp add: Let_def)
    next
      case plq
      note it = iteration_plq_download[OF plq dl g nonoct, of tmp_dir image_names nf]
      have z: "map_of (files_after [] ?it) (output_path_of tmp_dir nf @ ''_PLQ.jpg'') =
                 Some (Jpg (ResultPlot (PLQ_result (c_matrix (PLD_result (image_of nf) image_names m1))
                    (image_of nf) image_names m2) ''PLQ''))"
        unfolding it by (rule plot_of_plq_download)
      show ?thesis
        apply (rule exI[of _ m1], rule exI[of _ m2], rule exI[of _ ?it],
               rule exI[of _ "output_path_of tmp_dir nf @ ''_PLQ.jpg''"])
        using g p plq z it
        by (simp add: Let_def)
    qed
  qed
  show ?thesis
  proof (intro conjI impI)
    show "predict w g kw h = (g1, predict_loop w kw g1 tmp_dir image_names h1 [nf])" by (rule first)
  next
    assume a: "(\<forall>h c. \<not> fails w h c) \<and> content_type (files kw) \<noteq> ''application/octet-stream''"
    from a have nofail: "\<forall>h c. \<not> fails w h c"
      and nonoct: "content_type (files kw) \<noteq> ''application/octet-stream''" by simp_all
    from B[OF nofail nonoct] show "\<exists>m1 m2 tr path.
               model_PLD g1 = Some m1 \<and> model_PLQ g1 = Some m2 \<and>
               predict w g kw h = (g1, h1 @ tr, Returned (Some (Handle_rb path))) \<and>
               last tr = Open_rb path \<and>
               (let image = image_of nf;
                    rd = PLD_result image image_names m1;
                    rq = PLQ_result (c_matrix rd) image image_names m2;
                    out = output_path_of tmp_dir nf;
                    stem = drop_last4 (os_path_basename (fst nf))
                in if PLD_plot kw \<and> PLQ_plot kw then
                     path = tmp_dir @ ''.zip'' \<and>
                     tr = [Decode image, Classify rd, Get_dataframe (PLD_df rd ''PLD''),
                           Get_plot (ResultPlot rd ''PLD''),
                           Savefig (ResultPlot rd ''PLD'') (out @ ''_PLD.jpg''),
                           Classify rq, Get_dataframe (PLQ_df rq ''PLQ''),
                           Get_plot (ResultPlot rq ''PLQ''),
                           Savefig (ResultPlot rq ''PLQ'') (out @ ''_PLQ.jpg''),
                           Excel_write (out @ ''_litter_items.xlsx'')
                             [(''Litter Detection'', PLD_df rd ''PLD''),
                              (''Litter Quantification'', PLQ_df rq ''PLQ'')],
                           Make_archive tmp_dir ''zip'' tmp_dir,
                           Open_rb (tmp_dir @ ''.zip'')] \<and>
                     map_of (files_after [] tr) path =
                       Some (Zip [stem @ ''_PLD.jpg'', stem @ ''_PLQ.jpg'',
                                  stem @ ''_litter_items.xlsx''])
                   else if PLD_plot kw then
                     path = out @ ''_PLD.jpg'' \<and>
                     tr = [Decode image, Classify rd, Get_dataframe (PLD_df rd ''PLD''),
                           Get_plot (ResultPlot rd ''PLD''),
                           Savefig (ResultPlot rd ''PLD'') (out @ ''_PLD.jpg''),
                           Open_rb (out @ ''_PLD.jpg'')] \<and>
                     map_of (files_after [] tr) path = Some (Jpg (ResultPlot rd ''PLD''))
                   else
                     path = out @ ''_PLQ.jpg'' \<and>
                     tr = [Decode image, Classify rd, Get_dataframe (PLD_df rd ''PLD''),
                           Classify rq, Get_plot (ResultPlot rq ''PLQ''),
                           Savefig (ResultPlot rq ''PLQ'') (out @ ''_PLQ.jpg''),
                           Open_rb (out @ ''_PLQ.jpg'')] \<and>
                     map_of (files_after [] tr) path = Some (Jpg (ResultPlot rq ''PLQ'')))" .
  qed
qed

theorem download_returns_on_first_image_witness:
  "output_type (request zip_upload True True ''Download'') = ''Download'' \<and>
   (PLD_plot (request zip_upload True True ''Download'')
      \<or> PLQ_plot (request zip_upload True True ''Download'')) \<and>
   zip [''a.jpg'', ''b.png''] [''/tmp/txx/a.jpg'', ''/tmp/txx/b.png'']
     = (''a.jpg'', ''/tmp/txx/a.jpg'') # [(''b.png'', ''/tmp/txx/b.png'')] \<and>
   (\<forall>h c. \<not> fails quiet h c) \<and>
   content_type (files (request zip_upload True True ''Download'')) \<noteq> ''application/octet-stream'' \<and>
   snd (snd (predict quiet no_globals (request zip_upload True True ''Download'') []))
     = Returned (Some (Handle_rb ''/tmp/txxxxx.zip'')) \<and>
   last (fst (snd (predict quiet no_globals (request zip_upload True True ''Download'') [])))
     = Open_rb ''/tmp/txxxxx.zip'' \<and>
   Make_archive ''/tmp/txxxxx'' ''zip'' ''/tmp/txxxxx''
     \<in> set (fst (snd (predict quiet no_globals (request zip_upload True True ''Download'') []))) \<and>
   map_of (files_after []
       (drop 6 (fst (snd (predict quiet no_globals (request zip_upload True True ''Download'') [])))))
       ''/tmp/txxxxx.zip''
     = Some (Zip [''a_PLD.jpg'', ''a_PLQ.jpg'', ''a_litter_items.xlsx'']) \<and>
   Decode (Arr_from_path ''/tmp/txx/b.png'')
     \<notin> set (fst (snd (predict quiet no_globals (request zip_upload True True ''Download'') [])))"
proof -
  let ?kw = "request zip_upload True True ''Download''"
  let ?g1 = "\<lparr>model_PLD = Some (Model 0), model_PLQ = Some (Model 1)\<rparr>"
  let ?h1 = "[Preprocessing_warm ''litter-assessment/models/PLD_CNN.h5'' (Model 0),
              Preprocessing_warm ''litter-assessment/models/PLQ_CNN.h5'' (Model 1),
              Mkdtemp ''/tmp/txx'', Extractall ''/tmp/up1'' ''/tmp/txx'',
              Listdir ''/tmp/txx'' [''a.jpg'', ''b.png''], Mkdtemp ''/tmp/txxxxx'']"
  let ?nf = "(''a.jpg'', ''/tmp/txx/a.jpg'')"
  have dl: "output_type ?kw = ''Download''" by (simp add: request_def)
  have both: "PLD_plot ?kw" "PLQ_plot ?kw" by (simp_all add: request_def)
  have flag: "PLD_plot ?kw \<or> PLQ_plot ?kw" using both by simp
  have stp: "predict_setup quiet no_globals ?kw [] =
               (?g1, ?h1, Returned ([''a.jpg'', ''b.png''],
                  [''/tmp/txx/a.jpg'', ''/tmp/txx/b.png''], ''/tmp/txxxxx''))"
    by (simp add: setup_defs concrete_defs Let_def os_path_join_def)
  have pairs: "zip [''a.jpg'', ''b.png''] [''/tmp/txx/a.jpg'', ''/tmp/txx/b.png'']
                 = ?nf # [(''b.png'', ''/tmp/txx/b.png'')]" by simp
  have nofail: "\<forall>h c. \<not> fails quiet h c" by (simp add: quiet_def)
  have nonoct: "content_type (files ?kw) \<noteq> ''application/octet-stream''"
    by (simp add: request_def zip_upload_def)
  have stem: "drop_last4 (os_path_basename (fst ?nf)) = ''a''"
    by (simp add: os_path_basename_def drop_last4_def)
  have out: "output_path_of ''/tmp/txxxxx'' ?nf = ''/tmp/txxxxx/a''"
    by (simp add: output_path_of_def os_path_join_def os_path_basename_def drop_last4_def)
  from download_returns_on_first_image [OF dl flag stp pairs] nofail nonoct
  obtain m1 m2 tr path where
    a: "predict quiet no_globals ?kw [] = (?g1, ?h1 @ tr, Returned (Some (Handle_rb path)))"
       "last tr = Open_rb path"
    and b: "(let image = image_of ?nf;
                    rd = PLD_result image [''a.jpg'', ''b.png''] m1;
                    rq = PLQ_result (c_matrix rd) image [''a.jpg'', ''b.png''] m2;
                    out = output_path_of ''/tmp/txxxxx'' ?nf;
                    stem = drop_last4 (os_path_basename (fst ?nf))
                in if PLD_plot ?kw \<and> PLQ_plot ?kw then
                     path = ''/tmp/txxxxx'' @ ''.zip'' \<and>
                     tr = [Decode image, Classify rd, Get_dataframe (PLD_df rd ''PLD''),
                           Get_plot (ResultPlot rd ''PLD''),
                           Savefig (ResultPlot rd ''PLD'') (out @ ''_PLD.jpg''),
                           Classify rq, Get_dataframe (PLQ_df rq ''PLQ''),
                           Get_plot (ResultPlot rq ''PLQ''),
                           Savefig (ResultPlot rq ''PLQ'') (out @ ''_PLQ.jpg''),
                           Excel_write (out @ ''_litter_items.xlsx'')
                             [(''Litter Detection'', PLD_df rd ''PLD''),
                              (''Litter Quantification'', PLQ_df rq ''PLQ'')],
                           Make_archive ''/tmp/txxxxx'' ''zip'' ''/tmp/txxxxx'',
                           Open_rb (''/tmp/txxxxx'' @ ''.zip'')] \<and>
                     map_of (files_after [] tr) path =
                       Some (Zip [stem @ ''_PLD.jpg'', stem @ ''_PLQ.jpg'',
                                  stem @ ''_litter_items.xlsx''])
                   else if PLD_plot ?kw then
                     path = out @ ''_PLD.jpg'' \<and>
                     tr = [Decode image, Classify rd, Get_dataframe (PLD_df rd ''PLD''),
                           Get_plot (ResultPlot rd ''PLD''),
                           Savefig (ResultPlot rd ''PLD'') (out @ ''_PLD.jpg''),
                           Open_rb (out @ ''_PLD.jpg'')] \<and>
                     map_of (files_after [] tr) path = Some (Jpg (ResultPlot rd ''PLD''))
                   else
                     path = out @ ''_PLQ.jpg'' \<and>
                     tr = [Decode image, Classify rd, Get_dataframe (PLD_df rd ''PLD''),
                           Classify rq, Get_plot (ResultPlot rq ''PLQ''),
                           Savefig (ResultPlot rq ''PLQ'') (out @ ''_PLQ.jpg''),
                           Open_rb (out @ ''_PLQ.jpg'')] \<and>
                     map_of (files_after [] tr) path = Some (Jpg (ResultPlot rq ''PLQ'')))"
    by blast
  from b both have c: "path = ''/tmp/txxxxx.zip''"
      "Make_archive ''/tmp/txxxxx'' ''zip'' ''/tmp/txxxxx'' \<in> set tr"
      "Decode (Arr_from_path ''/tmp/txx/b.png'') \<notin> set tr"
      "map_of (files_after [] tr) path = Some (Zip [''a_PLD.jpg'', ''a_PLQ.jpg'', ''a_litter_items.xlsx''])"
    by (auto simp add: Let_def out image_of_def os_path_basename_def drop_last4_def)
  have d: "fst (snd (predict quiet no_globals ?kw [])) = ?h1 @ tr"
          "snd (snd (predict quiet no_globals ?kw [])) = Returned (Some (Handle_rb path))"
    using a(1) by simp_all
  have ne: "tr \<noteq> []" using c(2) by auto
  have e: "drop 6 (?h1 @ tr) = tr" by simp
  have l: "last (?h1 @ tr) = Open_rb path" using a(2) ne by simp
  have n: "Decode (Arr_from_path ''/tmp/txx/b.png'') \<notin> set (?h1 @ tr)" using c(3) by simp
  have mk: "Make_archive ''/tmp/txxxxx'' ''zip'' ''/tmp/txxxxx'' \<in> set (?h1 @ tr)" using c(2) by simp
  show ?thesis
    unfolding d e using dl flag pairs nofail nonoct l n mk c(4) unfolding c(1) by blast
qed

text \<open>
  C2. In every run of predict, whatever the calls do, each call of the quantification
  classifier (\<open>PLQ_result\<close>) comes after a call of the detection classifier
  (\<open>PLD_result\<close>) made since the image of that iteration was decoded, on the same
  image array and the same names, and the matrix it receives is the \<open>c_matrix\<close> of that
  detection result (\<open>staged\<close> checks this along the trace). Detection is run also
  when only the quantification plot is requested: for an upload whose content type is
  not application/octet-stream the iteration then starts with the decoding, the detection
  call, its dataframe, and only then the quantification call.
\<close>

theorem quantification_follows_detection:
  assumes "predict w g kw h = (g', h', r)"
  shows "(\<exists>tr. h' = h @ tr \<and> staged None tr) \<and>
         (PLQ_plot kw \<and> \<not> PLD_plot kw \<and> model_PLD g1 = Some m1 \<and> model_PLQ g1 = Some m2 \<and>
          content_type (files kw) \<noteq> ''application/octet-stream'' \<longrightarrow>
            take 4 (calls_of (fst (iteration kw g1 t ns nf))) =
              [Decode (image_of nf),
               Classify (PLD_result (image_of nf) ns m1),
               Get_dataframe (PLD_df (PLD_result (image_of nf) ns m1) ''PLD''),
               Classify (PLQ_result (c_matrix (PLD_result (image_of nf) ns m1))
                           (image_of nf) ns m2)])"
proof -
  have A: "\<exists>tr. h' = h @ tr \<and> staged None tr"
    using assms
  proof (cases rule: predict_cases)
    case (setup_raised ts e)
    then show ?thesis using staged_setup[of ts None "[]"] by auto
  next
    case (looped ts names fs tmp tl)
    from staged_loop[OF looped(3)] have "staged None tl" by auto
    then have "staged None (ts @ tl)" using staged_setup[OF looped(2)] by simp
    with looped(4) show ?thesis by auto
  qed
  have B: "take 4 (calls_of (fst (iteration kw g1 t ns nf))) =
              [Decode (image_of nf),
               Classify (PLD_result (image_of nf) ns m1),
               Get_dataframe (PLD_df (PLD_result (image_of nf) ns m1) ''PLD''),
               Classify (PLQ_result (c_matrix (PLD_result (image_of nf) ns m1))
                           (image_of nf) ns m2)]"
    if "PLQ_plot kw" "\<not> PLD_plot kw" "model_PLD g1 = Some m1" "model_PLQ g1 = Some m2"
       "content_type (files kw) \<noteq> ''application/octet-stream''"
    using that by (simp add: iteration_def Let_def image_of_def return_plot_def)
  from A B show ?thesis by blast
qed

theorem quantification_follows_detection_witness:
  "(\<exists>tr. fst (snd (predict quiet no_globals (request zip_upload False True ''nextcloud'') [])) = [] @ tr
         \<and> staged None tr) \<and>
   PLQ_plot (request zip_upload False True ''nextcloud'') \<and>
   \<not> PLD_plot (request zip_upload False True ''nextcloud'') \<and>
   content_type (files (request zip_upload False True ''nextcloud'')) \<noteq> ''application/octet-stream'' \<and>
   take 4 (calls_of (fst (iteration (request zip_upload False True ''nextcloud'')
       \<lparr>model_PLD = Some (Model 0), model_PLQ = Some (Model 1)\<rparr> ''/tmp/s'' [''a.jpg'']
       (''a.jpg'', ''/tmp/i/a.jpg'')))) =
     [Decode (Arr_from_path ''/tmp/i/a.jpg''),
      Classify (PLD_result (Arr_from_path ''/tmp/i/a.jpg'') [''a.jpg''] (Model 0)),
      Get_dataframe (PLD_df (PLD_result (Arr_from_path ''/tmp/i/a.jpg'') [''a.jpg''] (Model 0)) ''PLD''),
      Classify (PLQ_result (c_matrix (PLD_result (Arr_from_path ''/tmp/i/a.jpg'') [''a.jpg''] (Model 0)))
                  (Arr_from_path ''/tmp/i/a.jpg'') [''a.jpg''] (Model 1))] \<and>
   \<not> staged None [Decode (Arr_from_path ''/tmp/i/a.jpg''),
      Classify (PLQ_result (c_matrix (PLD_result (Arr_from_path ''/tmp/i/a.jpg'') [''a.jpg''] (Model 0)))
                  (Arr_from_path ''/tmp/i/a.jpg'') [''a.jpg''] (Model 1))]"
  using quantification_follows_detection
    [of quiet no_globals "request zip_upload False True ''nextcloud''" "[]"
        "fst (predict quiet no_globals (request zip_upload False True ''nextcloud'') [])"
        "fst (snd (predict quiet no_globals (request zip_upload False True ''nextcloud'') []))"
        "snd (snd (predict quiet no_globals (request zip_upload False True ''nextcloud'') []))"
        "\<lparr>model_PLD = Some (Model 0), model_PLQ = Some (Model 1)\<rparr>" "Model 0" "Model 1"
        "''/tmp/s''" "[''a.jpg'']" "(''a.jpg'', ''/tmp/i/a.jpg'')"]
  by (simp add: request_def zip_upload_def image_of_def)

text \<open>
  C9. Whatever the globals hold when predict is called (unassigned, or the models of an
  earlier call of \<open>warm\<close> or of predict) and whatever was called before, the first call
  predict makes is \<open>preprocessing.warm\<close> for the PLD model and, unless that raises, the
  second is \<open>preprocessing.warm\<close> for the PLQ model; nothing else is called before both
  have returned. Every classifier call of the run is given the model objects these two
  loads returned and no further load happens; the globals hold these objects afterwards;
  no global is ever read unassigned; and the calls and the outcome of predict are the
  same for every content of the globals at entry.
\<close>

theorem predict_loads_models_fresh:
  assumes run: "predict w g kw h = (g', h', r)"
  shows "let m1 = warm_result w h ''litter-assessment/models/PLD_CNN.h5'';
             c1 = Preprocessing_warm ''litter-assessment/models/PLD_CNN.h5'' m1;
             m2 = warm_result w (h @ [c1]) ''litter-assessment/models/PLQ_CNN.h5'';
             c2 = Preprocessing_warm ''litter-assessment/models/PLQ_CNN.h5'' m2
         in ((h' = h @ [c1] \<and> r = Raised (Call_failed c1)) \<or>
             (h' = h @ [c1, c2] \<and> r = Raised (Call_failed c2)) \<or>
             (\<exists>tr. h' = h @ [c1, c2] @ tr \<and> (\<forall>c\<in>set tr. uses_models m1 m2 c) \<and>
                   model_PLD g' = Some m1 \<and> model_PLQ g' = Some m2)) \<and>
            (\<forall>n. r \<noteq> Raised (NameError n)) \<and>
            snd (predict w g0 kw h) = (h', r)"
proof -
  let ?m1 = "warm_result w h ''litter-assessment/models/PLD_CNN.h5''"
  let ?c1 = "Preprocessing_warm ''litter-assessment/models/PLD_CNN.h5'' ?m1"
  let ?m2 = "warm_result w (h @ [?c1]) ''litter-assessment/models/PLQ_CNN.h5''"
  let ?c2 = "Preprocessing_warm ''litter-assessment/models/PLQ_CNN.h5'' ?m2"
  obtain g1 h1 r1 where su: "predict_setup w g kw h = (g1, h1, r1)"
    by (cases "predict_setup w g kw h") auto
  obtain g1' where su0: "predict_setup w g0 kw h = (g1', h1, r1)"
    using predict_setup_globals[of w g0 kw h g] su by (cases "predict_setup w g0 kw h") auto
  note sh = predict_setup_shape[OF su, unfolded Let_def]
  note sh0 = predict_setup_shape[OF su0, unfolded Let_def]
  show ?thesis
  proof (cases r1)
    case (Raised e)
    with run su have e: "g' = g1" "h' = h1" "r = Raised e" by (simp_all add: predict_def)
    from su0 Raised have e0: "snd (predict w g0 kw h) = (h1, Raised e)" by (simp add: predict_def)
    from sh Raised have "is_call_failed e" by auto
    then have nn: "\<forall>n. r \<noteq> Raised (NameError n)" using e(3) by auto
    from sh have
      "(h1 = h @ [?c1] \<and> r1 = Raised (Call_failed ?c1)) \<or>
       (h1 = h @ [?c1, ?c2] \<and> r1 = Raised (Call_failed ?c2)) \<or>
       (\<exists>tr. h1 = h @ [?c1, ?c2] @ tr \<and> (\<forall>c\<in>set tr. uses_models ?m1 ?m2 c) \<and>
             model_PLD g1 = Some ?m1 \<and> model_PLQ g1 = Some ?m2)"
      using after_load_uses by blast
    with e e0 nn Raised show ?thesis unfolding Let_def by simp
  next
    case (Returned x)
    obtain names fs tmp where x: "x = (names, fs, tmp)" by (cases x)
    from sh Returned obtain ts where
      ts: "h1 = h @ [?c1, ?c2] @ ts" "\<forall>c\<in>set ts. after_load c"
          "model_PLD g1 = Some ?m1" "model_PLQ g1 = Some ?m2" by auto
    from sh0 Returned have g0: "model_PLD g1' = Some ?m1" "model_PLQ g1' = Some ?m2" by auto
    obtain h2 r2 where lp: "predict_loop w kw g1 tmp names h1 (zip names fs) = (h2, r2)"
      by (cases "predict_loop w kw g1 tmp names h1 (zip names fs)")
    from run su Returned x lp have e: "g' = g1" "h' = h2" "r = r2" by (simp_all add: predict_def)
    have "predict_loop w kw g1' tmp names h1 (zip names fs) = (h2, r2)"
      using loop_globals[of g1' g1 w kw tmp names h1 "zip names fs"] g0 ts(3,4) lp by simp
    with su0 Returned x have e0: "snd (predict w g0 kw h) = (h2, r2)" by (simp add: predict_def)
    from loop_calls[OF lp] obtain tl where
      tl: "h2 = h1 @ tl"
          "\<forall>c\<in>set tl. \<exists>nf\<in>set (zip names fs). c \<in> set (calls_of (fst (iteration kw g1 tmp names nf)))"
      by auto
    have "\<forall>c\<in>set tl. uses_models ?m1 ?m2 c"
      using tl(2) iteration_uses_models[OF ts(3,4), of kw tmp names] by blast
    then have um: "\<forall>c\<in>set (ts @ tl). uses_models ?m1 ?m2 c"
      using ts(2) after_load_uses by auto
    have hh: "h' = h @ [?c1, ?c2] @ (ts @ tl)" using e(2) tl(1) ts(1) by simp
    have nn: "\<forall>n. r \<noteq> Raised (NameError n)"
      using loop_no_name_error[OF ts(3,4), of w kw tmp names h1 "zip names fs" h2] lp e(3) by auto
    have "\<exists>tr. h' = h @ [?c1, ?c2] @ tr \<and> (\<forall>c\<in>set tr. uses_models ?m1 ?m2 c) \<and>
             model_PLD g' = Some ?m1 \<and> model_PLQ g' = Some ?m2"
      using hh um ts(3,4) e(1) by blast
    with nn e0 e show ?thesis unfolding Let_def by simp
  qed
qed

theorem predict_loads_models_fresh_witness:
  "warm quiet no_globals [] =
     (\<lparr>model_PLD = Some (Model 0), model_PLQ = Some (Model 1)\<rparr>,
      [Preprocessing_warm ''litter-assessment/models/PLD_CNN.h5'' (Model 0),
       Preprocessing_warm ''litter-assessment/models/PLQ_CNN.h5'' (Model 1)], Returned ()) \<and>
   (\<exists>tr. fst (snd (predict quiet \<lparr>model_PLD = Some (Model 0), model_PLQ = Some (Model 1)\<rparr>
               (request jpg_upload True False ''Download'')
               [Preprocessing_warm ''litter-assessment/models/PLD_CNN.h5'' (Model 0),
                Preprocessing_warm ''litter-assessment/models/PLQ_CNN.h5'' (Model 1)])) =
       [Preprocessing_warm ''litter-assessment/models/PLD_CNN.h5'' (Model 0),
        Preprocessing_warm ''litter-assessment/models/PLQ_CNN.h5'' (Model 1)] @
       [Preprocessing_warm ''litter-assessment/models/PLD_CNN.h5'' (Model 2),
        Preprocessing_warm ''litter-assessment/models/PLQ_CNN.h5'' (Model 3)] @ tr \<and>
       (\<forall>c\<in>set tr. uses_models (Model 2) (Model 3) c)) \<and>
   snd (predict quiet no_globals (request jpg_upload True False ''Download'')
          [Preprocessing_warm ''litter-assessment/models/PLD_CNN.h5'' (Model 0),
           Preprocessing_warm ''litter-assessment/models/PLQ_CNN.h5'' (Model 1)]) =
   snd (predict quiet \<lparr>model_PLD = Some (Model 0), model_PLQ = Some (Model 1)\<rparr>
          (request jpg_upload True False ''Download'')
          [Preprocessing_warm ''litter-assessment/models/PLD_CNN.h5'' (Model 0),
           Preprocessing_warm ''litter-assessment/models/PLQ_CNN.h5'' (Model 1)])"
proof -
  let ?gW = "\<lparr>model_PLD = Some (Model 0), model_PLQ = Some (Model 1)\<rparr>"
  let ?hW = "[Preprocessing_warm ''litter-assessment/models/PLD_CNN.h5'' (Model 0),
              Preprocessing_warm ''litter-assessment/models/PLQ_CNN.h5'' (Model 1)]"
  let ?kw = "request jpg_upload True False ''Download''"
  let ?p = "predict quiet ?gW ?kw ?hW"
  have w: "warm quiet no_globals [] = (?gW, ?hW, Returned ())"
    by (simp add: warm_def load_models_def quiet_def no_globals_def Let_def)
  have c: "?p = (fst ?p, fst (snd ?p), snd (snd ?p))" by simp
  have m: "warm_result quiet ?hW ''litter-assessment/models/PLD_CNN.h5'' = Model 2"
          "warm_result quiet (?hW @ [Preprocessing_warm ''litter-assessment/models/PLD_CNN.h5'' (Model 2)])
             ''litter-assessment/models/PLQ_CNN.h5'' = Model 3"
    by (simp_all add: quiet_def)
  have nr: "snd (snd ?p) = Returned (Some (Handle_rb ''/tmp/txxxx/beach_PLD.jpg''))"
    by (simp add: predict_def setup_defs concrete_defs iteration_def Let_def return_plot_def
          plot_file_def os_path_join_def os_path_basename_def drop_last4_def)
  show ?thesis
    using predict_loads_models_fresh [OF c, of no_globals, unfolded Let_def m] w nr
    by auto
qed

text \<open>
  C3. The code does not write the workbook for every call with both plot flags set. For
  an upload of content type application/octet-stream (here the single image
  \<open>dune.jpg\<close>, both flags set, any \<open>output_type\<close>, no collaborator failing) the first
  iteration raises TypeError at line 189, where \<open>get_arr_from_bin\<close> hands the path of
  the stored file to \<open>io.BytesIO\<close>; the calls of the whole run are the two model loads
  and the creation of the scratch directory, and no workbook is written.
\<close>

theorem workbook_not_written_for_octet_stream:
  "snd (predict quiet no_globals (request octet_upload True True out) []) =
     ([Preprocessing_warm ''litter-assessment/models/PLD_CNN.h5'' (Model 0),
       Preprocessing_warm ''litter-assessment/models/PLQ_CNN.h5'' (Model 1),
       Mkdtemp ''/tmp/txx''],
      Raised (TypeError ''a bytes-like object is required, not str'')) \<and>
   filter is_workbook (fst (snd (predict quiet no_globals (request octet_upload True True out) []))) = []"
  by (simp add: predict_octet_upload)

text \<open>
  C4. The code raises for an unmatched \<open>output_type\<close> when the upload has content type
  application/octet-stream. With \<open>output_type = ''email''\<close>, the detection plot requested
  and no collaborator failing, predict ends in the TypeError of line 189 instead of
  returning \<open>None\<close>, and the message of the unmatched case is never printed.
\<close>

theorem unmatched_output_type_raises_for_octet_stream:
  "snd (snd (predict quiet no_globals (request octet_upload True plq ''email'') [])) =
     Raised (TypeError ''a bytes-like object is required, not str'') \<and>
   snd (snd (predict quiet no_globals (request octet_upload True plq ''email'') [])) \<noteq> Returned None \<and>
   filter is_print (fst (snd (predict quiet no_globals (request octet_upload True plq ''email'') []))) = []"
  by (simp add: predict_octet_upload)

text \<open>
  C5. The code returns no archive for a single-image upload of content type
  application/octet-stream. With \<open>output_type = ''Download''\<close>, both plot flags set and
  no collaborator failing, predict loads the two models, creates the scratch directory and
  then raises TypeError at line 189 (\<open>get_arr_from_bin\<close> gives \<open>io.BytesIO\<close> the path of
  the stored file, the two lines reading the file being commented out): nothing is
  decoded, no plot and no workbook is written, no archive is made and no handle is
  returned.
\<close>

theorem single_octet_stream_download_raises:
  "predict quiet no_globals (request octet_upload True True ''Download'') [] =
     (\<lparr>model_PLD = Some (Model 0), model_PLQ = Some (Model 1)\<rparr>,
      [Preprocessing_warm ''litter-assessment/models/PLD_CNN.h5'' (Model 0),
       Preprocessing_warm ''litter-assessment/models/PLQ_CNN.h5'' (Model 1),
       Mkdtemp ''/tmp/txx''],
      Raised (TypeError ''a bytes-like object is required, not str''))"
  by (rule predict_octet_upload)

text \<open>
  C10. With both plot flags unset the code does not run the detection stage on an upload
  of content type application/octet-stream, and does not return \<open>None\<close>: for every
  \<open>output_type\<close>, with no collaborator failing, the first iteration raises TypeError at
  line 189 before the detection classifier is called: the calls of the whole run are the
  two model loads and the creation of the scratch directory.
\<close>

theorem no_flags_octet_stream_raises:
  "snd (predict quiet no_globals (request octet_upload False False out) []) =
     ([Preprocessing_warm ''litter-assessment/models/PLD_CNN.h5'' (Model 0),
       Preprocessing_warm ''litter-assessment/models/PLQ_CNN.h5'' (Model 1),
       Mkdtemp ''/tmp/txx''],
      Raised (TypeError ''a bytes-like object is required, not str'')) \<and>
   snd (snd (predict quiet no_globals (request octet_upload False False out) [])) \<noteq> Returned None"
  by (simp add: predict_octet_upload)




text \<open>
  C7. The code does not name the plot after the basename without its extension when the
  extension is not three characters long: line 186 drops the last four characters of the
  basename (\<open>name[:-4]\<close>) whatever the extension is. For the single upload
  \<open>photo.jpeg\<close> with the detection plot requested for download, the plot is saved as,
  and the handle returned is on, \<open>photo._PLD.jpg\<close> in the scratch directory, where the
  specified name is \<open>photo_PLD.jpg\<close>.
\<close>

theorem plot_name_long_extension:
  "snd (snd (predict quiet no_globals (request jpeg_upload True False ''Download'') []))
     = Returned (Some (Handle_rb ''/tmp/txx/photo._PLD.jpg'')) \<and>
   Savefig (ResultPlot (PLD_result (Arr_from_path ''/tmp/up3'') [''photo.jpeg''] (Model 0)) ''PLD'')
       ''/tmp/txx/photo._PLD.jpg''
     \<in> set (fst (snd (predict quiet no_globals (request jpeg_upload True False ''Download'') []))) \<and>
   spec_plot_name ''/tmp/txx'' ''photo.jpeg'' ''PLD'' = ''/tmp/txx/photo_PLD.jpg'' \<and>
   plot_file (output_path_of ''/tmp/txx'' (''photo.jpeg'', ''/tmp/up3'')) ''PLD''
     \<noteq> spec_plot_name ''/tmp/txx'' ''photo.jpeg'' ''PLD''"
  by (simp add: predict_def setup_defs concrete_defs jpeg_upload_def iteration_def Let_def
        return_plot_def plot_file_def os_path_join_def os_path_basename_def drop_last4_def
        spec_plot_name_def spec_basename_without_extension_def
        output_path_of_def)

end
